theory Spec2Isabelle
  imports Main "HOL-Library.AList"
begin

section \<open>JavaScript values\<close>

text \<open>
  The configuration file and the agent settings file are JSON documents that a user may
  edit by hand, so their fields are modelled as untyped JavaScript values. Numbers are
  integers here: the code only ever tests a number for truthiness. An object is an
  association list read with \<open>map_of\<close> (the first binding of a key is the property).
\<close>

datatype jsval =
    JUndefined
  | JNull
  | JBool bool
  | JNum int
  | JStr string
  | JArr "jsval list"
  | JObj "(string \<times> jsval) list"

type_synonym jsobject = "(string \<times> jsval) list"

text \<open>\<open>!v\<close> is \<open>\<not> truthy v\<close>.\<close>

fun truthy :: "jsval \<Rightarrow> bool" where
  "truthy JUndefined = False"
| "truthy JNull = False"
| "truthy (JBool b) = b"
| "truthy (JNum n) = (n \<noteq> 0)"
| "truthy (JStr s) = (s \<noteq> [])"
| "truthy (JArr xs) = True"
| "truthy (JObj kvs) = True"

text \<open>\<open>obj.k\<close>: a missing property reads as \<open>undefined\<close>.\<close>

definition get_prop :: "jsobject \<Rightarrow> string \<Rightarrow> jsval" where
  "get_prop obj k = (case map_of obj k of None \<Rightarrow> JUndefined | Some v \<Rightarrow> v)"

text \<open>\<open>obj[k] = v\<close> on an object.\<close>

definition set_prop :: "jsobject \<Rightarrow> string \<Rightarrow> jsval \<Rightarrow> jsobject" where
  "set_prop obj k v = AList.update k v obj"

text \<open>\<open>Array.isArray\<close>.\<close>

fun isArray :: "jsval \<Rightarrow> bool" where
  "isArray (JArr xs) = True"
| "isArray v = False"

text \<open>\<open>a ?? b\<close>.\<close>

definition nullish :: "jsval \<Rightarrow> jsval \<Rightarrow> jsval" where
  "nullish a b = (if a = JUndefined \<or> a = JNull then b else a)"

text \<open>Decimal rendering of an index, for the keys of a spread array or string.\<close>

fun string_of_nat :: "nat \<Rightarrow> string" where
  "string_of_nat n =
     (if n < 10 then [char_of (48 + n)]
      else string_of_nat (n div 10) @ [char_of (48 + n mod 10)])"

text \<open>
  The own enumerable properties that \<open>{...v}\<close> copies: the properties of an object, the
  indexed elements of an array, the indexed characters of a string, nothing for the
  other values.
\<close>

fun own_entries :: "jsval \<Rightarrow> jsobject" where
  "own_entries (JObj kvs) = kvs"
| "own_entries (JArr xs) = zip (map string_of_nat [0..<length xs]) xs"
| "own_entries (JStr s) = zip (map string_of_nat [0..<length s]) (map (\<lambda>c. JStr [c]) s)"
| "own_entries v = []"

text \<open>\<open>{...target, ...src}\<close>: the properties of \<open>src\<close> win.\<close>

definition spread :: "jsobject \<Rightarrow> jsobject \<Rightarrow> jsobject" where
  "spread target src = AList.merge target src"


section \<open>Agent profiles\<close>

text \<open>
  The registry of agent profiles (\<open>agents.ts\<close>) is not part of the sources at hand. The
  fields are those the code reads. \<open>getAgentConfig\<close> is a parameter of every function
  that calls it: \<open>None\<close> stands for the exception it throws on an unknown id.
\<close>

record AgentConfig =
  supportsMcp :: bool
  settingsFile :: "string option"
  skillsDir :: string
  configDir :: string

datatype error =
    UnknownAgent jsval
  | Error string
  | TypeError string

type_synonym registry = "jsval \<Rightarrow> AgentConfig option"

text \<open>A registry of three agents, one of them without MCP support.\<close>

definition claudeProfile :: AgentConfig where
  "claudeProfile = \<lparr>supportsMcp = True, settingsFile = Some ''.mcp.json'',
                    skillsDir = ''.claude/skills'', configDir = ''.claude''\<rparr>"

definition opencodeProfile :: AgentConfig where
  "opencodeProfile = \<lparr>supportsMcp = True, settingsFile = Some ''opencode.json'',
                      skillsDir = ''.opencode/skills'', configDir = ''.opencode''\<rparr>"

definition plainProfile :: AgentConfig where
  "plainProfile = \<lparr>supportsMcp = False, settingsFile = None,
                   skillsDir = ''.plain/skills'', configDir = ''.plain''\<rparr>"

definition sampleRegistry :: registry where
  "sampleRegistry v =
     (if v = JStr ''claude'' then Some claudeProfile
      else if v = JStr ''opencode'' then Some opencodeProfile
      else if v = JStr ''plain'' then Some plainProfile
      else None)"


section \<open>config.ts\<close>

definition resolveAgentId :: "registry \<Rightarrow> jsval \<Rightarrow> jsval" where
  "resolveAgentId getAgentConfig agentId =
     (if \<not> truthy agentId then JStr ''claude''
      else (case getAgentConfig agentId of
              Some a \<Rightarrow> agentId
            | None \<Rightarrow> JStr ''claude''))"

text \<open>The default parameter \<open>agentId = 'claude'\<close> replaces an \<open>undefined\<close> argument.\<close>

definition createDefaultConfig :: "registry \<Rightarrow> string \<Rightarrow> jsval \<Rightarrow> error + jsobject" where
  "createDefaultConfig getAgentConfig CURRENT_VERSION agentId0 =
     (let agentId = (if agentId0 = JUndefined then JStr ''claude'' else agentId0);
          resolvedAgentId = resolveAgentId getAgentConfig agentId
      in case getAgentConfig resolvedAgentId of
           None \<Rightarrow> Inl (UnknownAgent resolvedAgentId)
         | Some agent \<Rightarrow>
             Inr [(''version'', JStr CURRENT_VERSION),
                  (''agent'', resolvedAgentId),
                  (''skillsDir'', JStr (skillsDir agent)),
                  (''installedSkills'', JArr []),
                  (''mcp'', JObj [(''github'', JBool False),
                                  (''filesystem'', JBool False),
                                  (''postgres'', JBool False),
                                  (''chromeDevtools'', JBool False)])])"

definition migrateConfig :: "registry \<Rightarrow> string \<Rightarrow> jsobject \<Rightarrow> error + jsobject" where
  "migrateConfig getAgentConfig CURRENT_VERSION config =
     (let resolvedAgentId = resolveAgentId getAgentConfig (get_prop config ''agent'')
      in case createDefaultConfig getAgentConfig CURRENT_VERSION resolvedAgentId of
           Inl e \<Rightarrow> Inl e
         | Inr defaults \<Rightarrow>
             Inr (set_prop
                   (set_prop
                     (set_prop (spread defaults config) ''agent'' resolvedAgentId)
                     ''installedSkills''
                     (if isArray (get_prop config ''installedSkills'')
                      then get_prop config ''installedSkills''
                      else get_prop defaults ''installedSkills''))
                   ''mcp''
                   (JObj (spread (own_entries (get_prop defaults ''mcp''))
                                 (own_entries (nullish (get_prop config ''mcp'') (JObj [])))))))"

text \<open>
  \<open>loadConfig\<close> on the parsed content of the configuration file: \<open>None\<close> is the \<open>null\<close>
  that \<open>readJsonFile\<close> gives for a missing file.
\<close>

definition loadConfig :: "registry \<Rightarrow> string \<Rightarrow> jsobject option \<Rightarrow> error + jsobject option" where
  "loadConfig getAgentConfig CURRENT_VERSION loadedConfig =
     (case loadedConfig of
        None \<Rightarrow> Inr None
      | Some c \<Rightarrow> (case migrateConfig getAgentConfig CURRENT_VERSION c of
                     Inl e \<Rightarrow> Inl e
                   | Inr r \<Rightarrow> Inr (Some r)))"


section \<open>Paths and the file system\<close>

text \<open>\<open>s.split(c)\<close>: the pieces of \<open>s\<close> between the occurrences of \<open>c\<close>, never empty.\<close>

fun split_on :: "char \<Rightarrow> string \<Rightarrow> string list" where
  "split_on c [] = [[]]"
| "split_on c (x # xs) =
     (if x = c then [] # split_on c xs
      else (case split_on c xs of
              [] \<Rightarrow> [[x]]
            | p # ps \<Rightarrow> (x # p) # ps))"

fun join_segments :: "string list \<Rightarrow> string" where
  "join_segments [] = []"
| "join_segments [s] = s"
| "join_segments (s # t # ts) = s @ ''/'' @ join_segments (t # ts)"

text \<open>
  Node's \<open>path.join\<close> and \<open>path.dirname\<close>, which the code imports: empty segments are
  dropped and the rest joined with a slash. The normalisation of \<open>.\<close> and \<open>..\<close>
  segments is left out; no property below depends on it.
\<close>

definition path_join :: "string list \<Rightarrow> string" where
  "path_join segs =
     (let r = join_segments (filter (\<lambda>s. s \<noteq> []) segs) in if r = [] then ''.'' else r)"

definition path_dirname :: "string \<Rightarrow> string" where
  "path_dirname p =
     (let parts = split_on (CHR ''/'') p
      in if length parts \<le> 1 then ''.''
         else (let d = join_segments (butlast parts) in if d = [] then ''/'' else d))"

datatype file_content = Text string | Json jsobject

record filesystem =
  files :: "(string \<times> file_content) list"
  dirs :: "string list"

text \<open>
  Modelled from the spec: the file system helpers of \<open>utils/fs.ts\<close>, which are not part
  of the sources at hand. The spec takes them to be correct and atomic per call:
  \<open>readJsonFile\<close> and \<open>readTextFile\<close> give \<open>null\<close> (here \<open>None\<close>) for a file that is
  missing or of the other kind, \<open>ensureDir\<close> creates a directory when it is absent and
  is a no-op otherwise, \<open>listDirectories\<close> gives the names of the immediate
  subdirectories and fails (\<open>None\<close>) on a directory that does not exist.
\<close>

definition fileExists :: "filesystem \<Rightarrow> string \<Rightarrow> bool" where
  "fileExists fs p = (map_of (files fs) p \<noteq> None)"

definition readJsonFile :: "filesystem \<Rightarrow> string \<Rightarrow> jsobject option" where
  "readJsonFile fs p = (case map_of (files fs) p of Some (Json d) \<Rightarrow> Some d | _ \<Rightarrow> None)"

definition writeJsonFile :: "string \<Rightarrow> jsobject \<Rightarrow> filesystem \<Rightarrow> filesystem" where
  "writeJsonFile p d fs = fs\<lparr>files := AList.update p (Json d) (files fs)\<rparr>"

definition readTextFile :: "filesystem \<Rightarrow> string \<Rightarrow> string option" where
  "readTextFile fs p = (case map_of (files fs) p of Some (Text t) \<Rightarrow> Some t | _ \<Rightarrow> None)"

definition writeTextFile :: "string \<Rightarrow> string \<Rightarrow> filesystem \<Rightarrow> filesystem" where
  "writeTextFile p t fs = fs\<lparr>files := AList.update p (Text t) (files fs)\<rparr>"

definition ensureDir :: "string \<Rightarrow> filesystem \<Rightarrow> filesystem" where
  "ensureDir d fs = (if d \<in> set (dirs fs) then fs else fs\<lparr>dirs := dirs fs @ [d]\<rparr>)"

definition listDirectories :: "filesystem \<Rightarrow> string \<Rightarrow> string list option" where
  "listDirectories fs d =
     (if d \<in> set (dirs fs)
      then Some (map (\<lambda>p. last (split_on (CHR ''/'') p))
                     (filter (\<lambda>p. p \<noteq> d \<and> path_dirname p = d) (dirs fs)))
      else None)"

definition is_under :: "string \<Rightarrow> string \<Rightarrow> bool" where
  "is_under d p = (take (length d + 1) p = d @ ''/'')"

text \<open>
  \<open>copyDirectory\<close> reads the source tree from one file system (the installed package)
  and writes the copies into another (the project).
\<close>

definition copyDirectory :: "filesystem \<Rightarrow> string \<Rightarrow> string \<Rightarrow> filesystem \<Rightarrow> filesystem" where
  "copyDirectory src source target fs =
     fold (\<lambda>(p, c) f. if is_under source p
                       then f\<lparr>files := AList.update (target @ drop (length source) p) c (files f)\<rparr>
                       else f)
          (files src) (ensureDir target fs)"


section \<open>The MCP provisioner\<close>

record McpServerConfig =
  command :: string
  args :: "string list option"
  env :: "(string \<times> string) list option"

record OpenCodeMcpServerConfig =
  oc_type :: string
  oc_command :: "string list"
  oc_environment :: "(string \<times> string) list option"

record McpOptions =
  github :: bool
  filesystem :: bool
  postgres :: bool
  chromeDevtools :: bool

text \<open>
  The package the tool is installed from: read-only during every operation (the spec's
  data model: a skill source is never mutated), hence a store of its own beside the
  project's file system. The MCP server templates are kept parsed, at their declared
  type.
\<close>

record package =
  getSkillsDir :: string
  getMcpDir :: string
  tree :: filesystem
  mcpTemplateFiles :: "(string \<times> McpServerConfig) list"

definition MCP_SERVER_FILES :: "(string \<times> string) list" where
  "MCP_SERVER_FILES =
     [(''github'', ''github.json''),
      (''filesystem'', ''filesystem.json''),
      (''postgres'', ''postgres.json''),
      (''chromeDevtools'', ''chrome-devtools.json'')]"

text \<open>\<open>options[key]\<close> for a key of \<open>MCP_SERVER_FILES\<close>.\<close>

definition option_flag :: "McpOptions \<Rightarrow> string \<Rightarrow> bool" where
  "option_flag options key =
     (if key = ''github'' then github options
      else if key = ''filesystem'' then filesystem options
      else if key = ''postgres'' then postgres options
      else if key = ''chromeDevtools'' then chromeDevtools options
      else False)"

text \<open>\<open>readJsonFile<McpServerConfig>\<close> on a template file of the package.\<close>

definition readTemplate :: "package \<Rightarrow> string \<Rightarrow> McpServerConfig option" where
  "readTemplate pkg p = map_of (mcpTemplateFiles pkg) p"

definition toOpenCodeFormat :: "McpServerConfig \<Rightarrow> OpenCodeMcpServerConfig" where
  "toOpenCodeFormat config =
     (let cmd = command config # (case args config of Some a \<Rightarrow> a | None \<Rightarrow> []);
          result = \<lparr>oc_type = ''local'', oc_command = cmd, oc_environment = None\<rparr>
      in (case env config of
            Some e \<Rightarrow> result\<lparr>oc_environment := Some e\<rparr>
          | None \<Rightarrow> result))"

fun selectTemplates ::
  "package \<Rightarrow> McpOptions \<Rightarrow> string \<Rightarrow> (string \<times> string) list \<Rightarrow> (string \<times> McpServerConfig) list"
where
  "selectTemplates pkg options mcpTemplatesDir [] = []"
| "selectTemplates pkg options mcpTemplatesDir ((key, file) # rest) =
     (if \<not> option_flag options key then selectTemplates pkg options mcpTemplatesDir rest
      else (case readTemplate pkg (path_join [mcpTemplatesDir, file]) of
              Some template \<Rightarrow> (key, template) # selectTemplates pkg options mcpTemplatesDir rest
            | None \<Rightarrow> selectTemplates pkg options mcpTemplatesDir rest))"

definition getSelectedServerTemplates ::
  "package \<Rightarrow> McpOptions \<Rightarrow> string \<Rightarrow> (string \<times> McpServerConfig) list"
where
  "getSelectedServerTemplates pkg options mcpTemplatesDir =
     selectTemplates pkg options mcpTemplatesDir MCP_SERVER_FILES"

text \<open>The JSON documents of the two server shapes; an absent optional field is an absent key.\<close>

definition js_of_record :: "(string \<times> string) list \<Rightarrow> jsval" where
  "js_of_record r = JObj (map (\<lambda>(k, v). (k, JStr v)) r)"

definition js_of_McpServerConfig :: "McpServerConfig \<Rightarrow> jsval" where
  "js_of_McpServerConfig t =
     JObj ([(''command'', JStr (command t))]
           @ (case args t of Some a \<Rightarrow> [(''args'', JArr (map JStr a))] | None \<Rightarrow> [])
           @ (case env t of Some e \<Rightarrow> [(''env'', js_of_record e)] | None \<Rightarrow> []))"

definition js_of_OpenCode :: "OpenCodeMcpServerConfig \<Rightarrow> jsval" where
  "js_of_OpenCode c =
     JObj ([(''type'', JStr (oc_type c)), (''command'', JArr (map JStr (oc_command c)))]
           @ (case oc_environment c of
                Some e \<Rightarrow> [(''environment'', js_of_record e)]
              | None \<Rightarrow> []))"

text \<open>
  \<open>target[key] = v\<close> where \<open>target\<close> is the value found under the MCP key of the
  settings document, as the written file shows it. On an object the property is set.
  On an array the named property is set in memory but \<open>JSON.stringify\<close> writes indexed
  elements only, so the document keeps the array as it was. On any other value the
  assignment throws (module code is strict).
\<close>

fun assign_prop :: "jsval \<Rightarrow> string \<Rightarrow> jsval \<Rightarrow> error + jsval" where
  "assign_prop (JObj kvs) key v = Inr (JObj (set_prop kvs key v))"
| "assign_prop (JArr xs) key v = Inr (JArr xs)"
| "assign_prop w key v = Inl (TypeError (''Cannot create property '' @ key))"

text \<open>
  The loop \<open>for (const [key, template] of selectedTemplates)\<close> of either branch:
  \<open>conv\<close> is the shape conversion of the branch.
\<close>

fun assignServers ::
  "(McpServerConfig \<Rightarrow> jsval) \<Rightarrow> (string \<times> McpServerConfig) list \<Rightarrow> jsval \<times> string list
     \<Rightarrow> error + (jsval \<times> string list)"
where
  "assignServers conv [] (sub, configuredServers) = Inr (sub, configuredServers)"
| "assignServers conv ((key, template) # rest) (sub, configuredServers) =
     (case assign_prop sub key (conv template) of
        Inl e \<Rightarrow> Inl e
      | Inr sub' \<Rightarrow> assignServers conv rest (sub', configuredServers @ [key]))"

text \<open>
  One branch of \<open>configureMcp\<close>: load the settings document or start from \<open>{}\<close>, make
  sure the MCP sub-map is there, assign the selected servers and write the document.
\<close>

definition mergeIntoSettings ::
  "string \<Rightarrow> (McpServerConfig \<Rightarrow> jsval) \<Rightarrow> string \<Rightarrow> (string \<times> McpServerConfig) list
     \<Rightarrow> filesystem \<Rightarrow> error + (filesystem \<times> string list)"
where
  "mergeIntoSettings mcpKey conv settingsPath selectedTemplates fs =
     (let settings0 = (if fileExists fs settingsPath
                       then (case readJsonFile fs settingsPath of
                               Some existing \<Rightarrow> existing
                             | None \<Rightarrow> [])
                       else []);
          settings = (if \<not> truthy (get_prop settings0 mcpKey)
                      then set_prop settings0 mcpKey (JObj [])
                      else settings0)
      in case assignServers conv selectedTemplates (get_prop settings mcpKey, []) of
           Inl e \<Rightarrow> Inl e
         | Inr (sub, configuredServers) \<Rightarrow>
             Inr (writeJsonFile settingsPath (set_prop settings mcpKey sub) fs,
                  configuredServers))"

definition configureMcp ::
  "registry \<Rightarrow> package \<Rightarrow> string \<Rightarrow> McpOptions \<Rightarrow> string \<Rightarrow> filesystem
     \<Rightarrow> error + (filesystem \<times> string list)"
where
  "configureMcp getAgentConfig pkg projectDir options agentId fs =
     (case getAgentConfig (JStr agentId) of
        None \<Rightarrow> Inl (UnknownAgent (JStr agentId))
      | Some agent \<Rightarrow>
          (case settingsFile agent of
             None \<Rightarrow> Inr (fs, [])
           | Some sf \<Rightarrow>
               if \<not> supportsMcp agent \<or> sf = [] then Inr (fs, [])
               else
                 (let isOpenCode = (agentId = ''opencode'');
                      settingsPath = path_join [projectDir, sf];
                      settingsDir = path_dirname settingsPath;
                      fs1 = ensureDir settingsDir fs;
                      mcpTemplatesDir = path_join [getMcpDir pkg, ''templates''];
                      selectedTemplates = getSelectedServerTemplates pkg options mcpTemplatesDir
                  in if length selectedTemplates = 0 then Inr (fs1, [])
                     else if isOpenCode
                     then mergeIntoSettings ''mcp'' (\<lambda>t. js_of_OpenCode (toOpenCodeFormat t))
                            settingsPath selectedTemplates fs1
                     else mergeIntoSettings ''mcpServers'' js_of_McpServerConfig
                            settingsPath selectedTemplates fs1)))"


section \<open>The skill installer\<close>

record TransformResult =
  flat :: bool
  targetDir :: string
  targetName :: string
  content :: string

text \<open>
  The transformers (\<open>transformer.ts\<close>) and the template functions (\<open>template.ts\<close>) are
  not part of the sources at hand and are parameters. The spec has \<open>transform\<close> a pure
  function of the skill name and the markdown, and \<open>postInstall\<close> an optional hook.
\<close>

record Transformer =
  transform :: "string \<Rightarrow> string \<Rightarrow> TransformResult"
  postInstall :: "(string \<Rightarrow> filesystem \<Rightarrow> filesystem) option"

record collaborators =
  getTransformer :: "string \<Rightarrow> Transformer"
  buildTemplateVars :: "AgentConfig \<Rightarrow> (string \<times> string) list"
  processTemplate :: "string \<Rightarrow> (string \<times> string) list \<Rightarrow> string"
  processSkillTemplates :: "string \<Rightarrow> AgentConfig \<Rightarrow> filesystem \<Rightarrow> filesystem"

record InstallOptions =
  projectDir :: string
  skillsDir :: string
  skills :: "string list"
  stack :: "string option"
  agentId :: string

text \<open>The two fields of the project configuration that the installer reads.\<close>

record AiFactoryConfig =
  agent :: string
  skillsDir :: string

text \<open>The project's file system and the lines written by \<open>console.warn\<close>.\<close>

record world =
  project :: filesystem
  warnings :: "string list"

definition warn :: "string \<Rightarrow> world \<Rightarrow> world" where
  "warn msg w = w\<lparr>warnings := warnings w @ [msg]\<rparr>"

definition quoted :: "string \<Rightarrow> string" where
  "quoted s = [CHR 0x22] @ s @ [CHR 0x22]"

text \<open>\<open>`${error}`\<close>: the rendering of a thrown value inside a warning.\<close>

fun show_error :: "error \<Rightarrow> string" where
  "show_error (Error msg) = ''Error: '' @ msg"
| "show_error (TypeError msg) = ''TypeError: '' @ msg"
| "show_error (UnknownAgent v) = ''Error: unknown agent''"

definition installSkillWithTransformer ::
  "collaborators \<Rightarrow> package \<Rightarrow> string \<Rightarrow> string \<Rightarrow> string \<Rightarrow> string \<Rightarrow> string
     \<Rightarrow> AgentConfig \<Rightarrow> filesystem \<Rightarrow> error + filesystem"
where
  "installSkillWithTransformer C pkg sourceSkillDir skillName projDir sklDir agId agentConfig fs =
     (let transformer = getTransformer C agId;
          skillMdPath = path_join [sourceSkillDir, ''SKILL.md'']
      in case readTextFile (tree pkg) skillMdPath of
           None \<Rightarrow> Inl (Error (''SKILL.md not found in '' @ sourceSkillDir))
         | Some cont \<Rightarrow>
             if cont = [] then Inl (Error (''SKILL.md not found in '' @ sourceSkillDir))
             else
               (let result = transform transformer skillName cont;
                    vars = buildTemplateVars C agentConfig
                in if flat result
                   then
                     (let targetPath = path_join [projDir, configDir agentConfig,
                                                  targetDir result, targetName result]
                      in Inr (writeTextFile targetPath (processTemplate C (content result) vars) fs))
                   else
                     (let targetSkillDir = path_join [projDir, sklDir, targetDir result];
                          fs1 = copyDirectory (tree pkg) sourceSkillDir targetSkillDir fs;
                          fs2 = (if content result \<noteq> cont
                                 then writeTextFile (path_join [targetSkillDir, ''SKILL.md''])
                                        (content result) fs1
                                 else fs1)
                      in Inr (processSkillTemplates C targetSkillDir agentConfig fs2))))"

text \<open>
  The body of the loop of \<open>reconcileCustomSkills\<close>, with the list
  \<open>reconciledCustomSkills\<close> threaded through. The destructuring
  \<open>[stack, templateSkill] = customSkill.split('/')\<close> takes the first two pieces, each
  \<open>undefined\<close> when there is none.
\<close>

fun reconcileLoop ::
  "collaborators \<Rightarrow> package \<Rightarrow> AgentConfig \<Rightarrow> string \<Rightarrow> AiFactoryConfig \<Rightarrow> string list
     \<Rightarrow> world \<times> string list \<Rightarrow> world \<times> string list"
where
  "reconcileLoop C pkg agentConfig projDir config [] (w, reconciledCustomSkills) =
     (w, reconciledCustomSkills)"
| "reconcileLoop C pkg agentConfig projDir config (customSkill # rest) (w, reconciledCustomSkills) =
     (let parts = split_on (CHR ''/'') customSkill;
          stck = (case parts of [] \<Rightarrow> None | s # ps \<Rightarrow> Some s);
          templateSkill = (case parts of s # t # ps \<Rightarrow> Some t | _ \<Rightarrow> None)
      in case (stck, templateSkill) of
           (Some st, Some ts) \<Rightarrow>
             if st = [] \<or> ts = []
             then reconcileLoop C pkg agentConfig projDir config rest
                    (warn (''Warning: Invalid custom skill entry '' @ quoted customSkill @ ''. Skipping.'') w,
                     reconciledCustomSkills)
             else
               (let templateSkillDir = path_join [getSkillsDir pkg, ''_templates'', st, ts]
                in if fileExists (tree pkg) (path_join [templateSkillDir, ''SKILL.md''])
                   then
                     (case installSkillWithTransformer C pkg templateSkillDir ts projDir
                             (AiFactoryConfig.skillsDir config) (agent config) agentConfig (project w) of
                        Inr fs' \<Rightarrow>
                          reconcileLoop C pkg agentConfig projDir config rest
                            (w\<lparr>project := fs'\<rparr>, reconciledCustomSkills @ [customSkill])
                      | Inl e \<Rightarrow>
                          reconcileLoop C pkg agentConfig projDir config rest
                            (warn (''Warning: Could not reconcile custom skill '' @ quoted customSkill
                                   @ '': '' @ show_error e) w,
                             reconciledCustomSkills))
                   else reconcileLoop C pkg agentConfig projDir config rest
                          (warn (''Warning: Custom skill source not found for '' @ quoted customSkill
                                 @ ''. Skipping.'') w,
                           reconciledCustomSkills))
         | _ \<Rightarrow>
             reconcileLoop C pkg agentConfig projDir config rest
               (warn (''Warning: Invalid custom skill entry '' @ quoted customSkill @ ''. Skipping.'') w,
                reconciledCustomSkills))"

definition reconcileCustomSkills ::
  "registry \<Rightarrow> collaborators \<Rightarrow> package \<Rightarrow> string list \<Rightarrow> string \<Rightarrow> AiFactoryConfig \<Rightarrow> world
     \<Rightarrow> error + (world \<times> string list)"
where
  "reconcileCustomSkills getAgentConfig C pkg customSkills projDir config w =
     (case getAgentConfig (JStr (agent config)) of
        None \<Rightarrow> Inl (UnknownAgent (JStr (agent config)))
      | Some agentConfig \<Rightarrow> Inr (reconcileLoop C pkg agentConfig projDir config customSkills (w, [])))"

text \<open>The first loop of \<open>installSkills\<close>: the \<open>try\<close> is inside the loop body.\<close>

fun installRequested ::
  "collaborators \<Rightarrow> package \<Rightarrow> AgentConfig \<Rightarrow> InstallOptions \<Rightarrow> string list
     \<Rightarrow> world \<times> string list \<Rightarrow> world \<times> string list"
where
  "installRequested C pkg agentConfig opts [] (w, installedSkills) = (w, installedSkills)"
| "installRequested C pkg agentConfig opts (skill # rest) (w, installedSkills) =
     (let sourceSkillDir = path_join [getSkillsDir pkg, skill]
      in case installSkillWithTransformer C pkg sourceSkillDir skill (projectDir opts)
                (InstallOptions.skillsDir opts) (agentId opts) agentConfig (project w) of
           Inr fs' \<Rightarrow>
             installRequested C pkg agentConfig opts rest
               (w\<lparr>project := fs'\<rparr>, installedSkills @ [skill])
         | Inl e \<Rightarrow>
             installRequested C pkg agentConfig opts rest
               (warn (''Warning: Could not install skill '' @ quoted skill @ '': '' @ show_error e) w,
                installedSkills))"

text \<open>
  The second loop: the \<open>try\<close> is around the whole loop and its \<open>catch\<close> is empty, so the
  first failing template skill ends the loop with what was installed so far.
\<close>

fun installTemplateSkills ::
  "collaborators \<Rightarrow> package \<Rightarrow> AgentConfig \<Rightarrow> InstallOptions \<Rightarrow> string \<Rightarrow> string \<Rightarrow> string list
     \<Rightarrow> world \<times> string list \<Rightarrow> world \<times> string list"
where
  "installTemplateSkills C pkg agentConfig opts stck templateDir [] (w, installedSkills) =
     (w, installedSkills)"
| "installTemplateSkills C pkg agentConfig opts stck templateDir (templateSkill # rest)
       (w, installedSkills) =
     (let sourceDir = path_join [templateDir, templateSkill]
      in case installSkillWithTransformer C pkg sourceDir templateSkill (projectDir opts)
                (InstallOptions.skillsDir opts) (agentId opts) agentConfig (project w) of
           Inr fs' \<Rightarrow>
             installTemplateSkills C pkg agentConfig opts stck templateDir rest
               (w\<lparr>project := fs'\<rparr>, installedSkills @ [stck @ ''/'' @ templateSkill])
         | Inl e \<Rightarrow> (w, installedSkills))"

definition installSkills ::
  "registry \<Rightarrow> collaborators \<Rightarrow> package \<Rightarrow> InstallOptions \<Rightarrow> world \<Rightarrow> error + (world \<times> string list)"
where
  "installSkills getAgentConfig C pkg opts w =
     (case getAgentConfig (JStr (agentId opts)) of
        None \<Rightarrow> Inl (UnknownAgent (JStr (agentId opts)))
      | Some agentConfig \<Rightarrow>
          (let targetDir = path_join [projectDir opts, InstallOptions.skillsDir opts];
               w1 = w\<lparr>project := ensureDir targetDir (project w)\<rparr>;
               packageSkillsDir = getSkillsDir pkg;
               r1 = installRequested C pkg agentConfig opts (skills opts) (w1, []);
               r2 = (case stack opts of
                       None \<Rightarrow> r1
                     | Some stck \<Rightarrow>
                         if stck = [] then r1
                         else
                           (let templateDir = path_join [packageSkillsDir, ''_templates'', stck]
                            in case listDirectories (tree pkg) templateDir of
                                 None \<Rightarrow> r1
                               | Some templateSkills \<Rightarrow>
                                   installTemplateSkills C pkg agentConfig opts stck templateDir
                                     templateSkills r1));
               transformer = getTransformer C (agentId opts)
           in case postInstall transformer of
                None \<Rightarrow> Inr r2
              | Some hook \<Rightarrow> Inr ((fst r2)\<lparr>project := hook (projectDir opts) (project (fst r2))\<rparr>, snd r2)))"


section \<open>Predicates of the statements\<close>

text \<open>
  \<open>installSkillWithTransformer\<close> throws exactly when \<open>SKILL.md\<close> of the source directory
  cannot be read or is empty (lemma \<open>installSkillWithTransformer_fails_iff\<close> below).
\<close>

definition hasSkillMd :: "package \<Rightarrow> string \<Rightarrow> bool" where
  "hasSkillMd pkg sourceSkillDir =
     (case readTextFile (tree pkg) (path_join [sourceSkillDir, ''SKILL.md'']) of
        Some cont \<Rightarrow> cont \<noteq> []
      | None \<Rightarrow> False)"

text \<open>A custom skill key with a non-empty stack and a non-empty skill around the slash.\<close>

definition wellFormedKey :: "string \<Rightarrow> bool" where
  "wellFormedKey customSkill =
     (case split_on (CHR ''/'') customSkill of
        st # ts # ps \<Rightarrow> st \<noteq> [] \<and> ts \<noteq> []
      | _ \<Rightarrow> False)"

definition customTemplateDir :: "package \<Rightarrow> string \<Rightarrow> string" where
  "customTemplateDir pkg customSkill =
     (case split_on (CHR ''/'') customSkill of
        st # ts # ps \<Rightarrow> path_join [getSkillsDir pkg, ''_templates'', st, ts]
      | _ \<Rightarrow> [])"

definition sourceExists :: "package \<Rightarrow> string \<Rightarrow> bool" where
  "sourceExists pkg customSkill =
     fileExists (tree pkg) (path_join [customTemplateDir pkg customSkill, ''SKILL.md''])"

definition reconcilable :: "package \<Rightarrow> string \<Rightarrow> bool" where
  "reconcilable pkg customSkill =
     (wellFormedKey customSkill \<and> sourceExists pkg customSkill
      \<and> hasSkillMd pkg (customTemplateDir pkg customSkill))"

text \<open>The warning that a key left out of the reconciled list produces.\<close>

definition reconcileWarning :: "package \<Rightarrow> string \<Rightarrow> string" where
  "reconcileWarning pkg customSkill =
     (if \<not> wellFormedKey customSkill
      then ''Warning: Invalid custom skill entry '' @ quoted customSkill @ ''. Skipping.''
      else if \<not> sourceExists pkg customSkill
      then ''Warning: Custom skill source not found for '' @ quoted customSkill @ ''. Skipping.''
      else ''Warning: Could not reconcile custom skill '' @ quoted customSkill @ '': ''
           @ show_error (Error (''SKILL.md not found in '' @ customTemplateDir pkg customSkill)))"


text \<open>The keys that the second loop of \<open>installSkills\<close> adds for a stack.\<close>

definition stackKeys :: "package \<Rightarrow> string option \<Rightarrow> string list" where
  "stackKeys pkg stck0 =
     (case stck0 of
        None \<Rightarrow> []
      | Some stck \<Rightarrow>
          if stck = [] then []
          else (let templateDir = path_join [getSkillsDir pkg, ''_templates'', stck]
                in case listDirectories (tree pkg) templateDir of
                     None \<Rightarrow> []
                   | Some templateSkills \<Rightarrow>
                       map (\<lambda>t. stck @ ''/'' @ t)
                           (takeWhile (\<lambda>t. hasSkillMd pkg (path_join [templateDir, t]))
                                      templateSkills)))"

text \<open>What the loop of \<open>assignServers\<close> makes of an object: every selected key is set in turn.\<close>

fun assignAll ::
  "(McpServerConfig \<Rightarrow> jsval) \<Rightarrow> (string \<times> McpServerConfig) list \<Rightarrow> jsobject \<Rightarrow> jsobject"
where
  "assignAll conv [] kvs = kvs"
| "assignAll conv ((key, template) # rest) kvs = assignAll conv rest (set_prop kvs key (conv template))"

text \<open>The path of the agent's settings file and the key of its MCP sub-map.\<close>

definition settingsPathOf :: "string \<Rightarrow> AgentConfig \<Rightarrow> string" where
  "settingsPathOf projDir agentConfig =
     (case settingsFile agentConfig of Some sf \<Rightarrow> path_join [projDir, sf] | None \<Rightarrow> [])"

definition mcpKeyOf :: "string \<Rightarrow> string" where
  "mcpKeyOf agId = (if agId = ''opencode'' then ''mcp'' else ''mcpServers'')"

text \<open>The settings document that \<open>configureMcp\<close> starts from.\<close>

definition loadedSettings :: "filesystem \<Rightarrow> string \<Rightarrow> jsobject" where
  "loadedSettings fs settingsPath =
     (case readJsonFile fs settingsPath of Some existing \<Rightarrow> existing | None \<Rightarrow> [])"


section \<open>Sample data for the concrete runs\<close>

definition samplePackage :: package where
  "samplePackage =
     \<lparr>getSkillsDir = ''/p/skills'',
      getMcpDir = ''/p/mcp'',
      tree = \<lparr>files = [(''/p/skills/alpha/SKILL.md'', Text ''# alpha''),
                       (''/p/skills/gamma/SKILL.md'', Text ''# gamma''),
                       (''/p/skills/_templates/react/b/SKILL.md'', Text ''# b''),
                       (''/p/skills/_templates/react/c/SKILL.md'', Text '''')],
              dirs = [''/p/skills'', ''/p/skills/alpha'', ''/p/skills/beta'', ''/p/skills/gamma'',
                      ''/p/skills/_templates'', ''/p/skills/_templates/react'',
                      ''/p/skills/_templates/react/a'', ''/p/skills/_templates/react/b'',
                      ''/p/skills/_templates/react/c'']\<rparr>,
      mcpTemplateFiles =
        [(''/p/mcp/templates/github.json'',
          \<lparr>command = ''npx'', args = Some [''-y'', ''server''], env = Some [(''TOKEN'', ''x'')]\<rparr>),
         (''/p/mcp/templates/filesystem.json'',
          \<lparr>command = ''npx'', args = None, env = None\<rparr>)]\<rparr>"

definition directoryTransformer :: Transformer where
  "directoryTransformer =
     \<lparr>transform = (\<lambda>skillName cont.
                     \<lparr>flat = False, targetDir = skillName, targetName = [], content = cont\<rparr>),
      postInstall = None\<rparr>"

definition sampleCollaborators :: collaborators where
  "sampleCollaborators =
     \<lparr>getTransformer = (\<lambda>agId. directoryTransformer),
      buildTemplateVars = (\<lambda>agentConfig. []),
      processTemplate = (\<lambda>cont vars. cont),
      processSkillTemplates = (\<lambda>dir agentConfig fs. fs)\<rparr>"

definition emptyWorld :: world where
  "emptyWorld = \<lparr>project = \<lparr>files = [], dirs = []\<rparr>, warnings = []\<rparr>"

definition projectWithSettings :: filesystem where
  "projectWithSettings =
     \<lparr>files = [(''/w/.mcp.json'',
                 Json [(''theme'', JStr ''dark''),
                       (''mcpServers'', JObj [(''custom'', JObj [(''command'', JStr ''run'')])])])],
      dirs = [''/w'']\<rparr>"

definition noOptions :: McpOptions where
  "noOptions = \<lparr>github = False, filesystem = False, postgres = False, chromeDevtools = False\<rparr>"

definition postgresOnly :: McpOptions where
  "postgresOnly = \<lparr>github = False, filesystem = False, postgres = True, chromeDevtools = False\<rparr>"

definition githubOnly :: McpOptions where
  "githubOnly = \<lparr>github = True, filesystem = False, postgres = False, chromeDevtools = False\<rparr>"

definition threeSkills :: InstallOptions where
  "threeSkills =
     \<lparr>projectDir = ''/w'', skillsDir = ''.claude/skills'',
      skills = [''alpha'', ''beta'', ''gamma''], stack = None, agentId = ''claude''\<rparr>"

definition reactStack :: InstallOptions where
  "reactStack =
     \<lparr>projectDir = ''/w'', skillsDir = ''.claude/skills'',
      skills = [], stack = Some ''react'', agentId = ''claude''\<rparr>"

definition sampleConfig :: AiFactoryConfig where
  "sampleConfig = \<lparr>agent = ''claude'', skillsDir = ''.claude/skills''\<rparr>"


section \<open>Properties of the configuration migration\<close>

lemma get_set_same: "get_prop (set_prop obj k v) k = v"
  by (simp add: get_prop_def set_prop_def update_conv')

lemma get_set_other: "k' \<noteq> k \<Longrightarrow> get_prop (set_prop obj k v) k' = get_prop obj k'"
  by (simp add: get_prop_def set_prop_def update_conv')

lemma get_prop_Nil: "get_prop [] k = JUndefined"
  by (simp add: get_prop_def)

lemma get_prop_Cons: "get_prop ((k, v) # obj) k' = (if k' = k then v else get_prop obj k')"
  by (simp add: get_prop_def)

lemma get_spread:
  "get_prop (spread a b) k = (case map_of b k of Some v \<Rightarrow> v | None \<Rightarrow> get_prop a k)"
  by (simp add: get_prop_def spread_def merge_conv' map_add_def split: option.splits)

lemma resolveAgentId_cases:
  "resolveAgentId g a = (if truthy a \<and> g a \<noteq> None then a else JStr ''claude'')"
  by (auto simp: resolveAgentId_def split: option.splits)

lemma resolveAgentId_known:
  "g (JStr ''claude'') = Some p \<Longrightarrow> \<exists>q. g (resolveAgentId g a) = Some q"
  by (auto simp: resolveAgentId_def split: option.splits)

lemma resolveAgentId_idem:
  "resolveAgentId g (resolveAgentId g a) = resolveAgentId g a"
  by (auto simp: resolveAgentId_def split: option.splits)

lemma resolveAgentId_defined: "resolveAgentId g a \<noteq> JUndefined"
  by (auto simp: resolveAgentId_def split: option.splits)

lemma createDefaultConfig_resolved:
  assumes "g (resolveAgentId g a) = Some q"
  shows "createDefaultConfig g V (resolveAgentId g a) =
       Inr [(''version'', JStr V),
            (''agent'', resolveAgentId g a),
            (''skillsDir'', JStr (AgentConfig.skillsDir q)),
            (''installedSkills'', JArr []),
            (''mcp'', JObj [(''github'', JBool False), (''filesystem'', JBool False),
                            (''postgres'', JBool False), (''chromeDevtools'', JBool False)])]"
  using assms by (simp add: createDefaultConfig_def resolveAgentId_idem resolveAgentId_defined)

lemma migrateConfig_resolved:
  assumes "g (resolveAgentId g (get_prop config ''agent'')) = Some q"
  shows "migrateConfig g V config =
       Inr (set_prop
             (set_prop
               (set_prop
                 (spread [(''version'', JStr V),
                          (''agent'', resolveAgentId g (get_prop config ''agent'')),
                          (''skillsDir'', JStr (AgentConfig.skillsDir q)),
                          (''installedSkills'', JArr []),
                          (''mcp'', JObj [(''github'', JBool False), (''filesystem'', JBool False),
                                          (''postgres'', JBool False), (''chromeDevtools'', JBool False)])]
                         config)
                 ''agent'' (resolveAgentId g (get_prop config ''agent'')))
               ''installedSkills''
               (if isArray (get_prop config ''installedSkills'')
                then get_prop config ''installedSkills'' else JArr []))
             ''mcp''
             (JObj (spread [(''github'', JBool False), (''filesystem'', JBool False),
                            (''postgres'', JBool False), (''chromeDevtools'', JBool False)]
                           (own_entries (nullish (get_prop config ''mcp'') (JObj []))))))"
proof -
  note c = createDefaultConfig_resolved[where g=g and a="get_prop config ''agent''" and q=q and V=V]
  have r: "get_prop ((k, d) # r) k = d" for k d r
    by (simp add: get_prop_def)
  have r': "k' \<noteq> k \<Longrightarrow> get_prop ((k, d) # r) k' = get_prop r k'" for k k' d r
    by (simp add: get_prop_def)
  show ?thesis
    unfolding migrateConfig_def Let_def using assms
    by (simp add: c r r')
qed

text \<open>The four fields of the result that the properties below are about.\<close>

lemma migrateConfig_fields:
  assumes "g (JStr ''claude'') = Some p"
  shows "\<exists>out. migrateConfig g V config = Inr out
           \<and> get_prop out ''version'' = (case map_of config ''version'' of Some v \<Rightarrow> v | None \<Rightarrow> JStr V)
           \<and> get_prop out ''agent'' = resolveAgentId g (get_prop config ''agent'')
           \<and> get_prop out ''installedSkills'' =
                 (if isArray (get_prop config ''installedSkills'')
                  then get_prop config ''installedSkills'' else JArr [])
           \<and> get_prop out ''mcp'' =
                 JObj (spread [(''github'', JBool False), (''filesystem'', JBool False),
                               (''postgres'', JBool False), (''chromeDevtools'', JBool False)]
                              (own_entries (nullish (get_prop config ''mcp'') (JObj []))))"
proof -
  obtain q where q: "g (resolveAgentId g (get_prop config ''agent'')) = Some q"
    using resolveAgentId_known[of g p] assms by blast
  note m = migrateConfig_resolved[where g=g and q=q and config=config and V=V, OF q]
  have v: "get_prop [(''version'', JStr V), (''agent'', a), (''skillsDir'', s),
                     (''installedSkills'', i), (''mcp'', c)] ''version'' = JStr V" for a s i c
    by (simp add: get_prop_def)
  show ?thesis
    unfolding m by (simp add: get_set_other get_set_same get_spread v split: option.splits)
qed

text \<open>
  Claim C1, as the code has it. With \<open>claude\<close> a registered agent, \<open>migrateConfig\<close> (and
  \<open>loadConfig\<close> on an existing file) returns a configuration whose \<open>version\<close> is the stored
  \<open>version\<close> whenever the input object has that key: the object literal spreads \<open>config\<close>
  over the defaults and sets only \<open>agent\<close>, \<open>installedSkills\<close> and \<open>mcp\<close> afterwards. The
  version is the tool's current version only when the input has no \<open>version\<close> key.
\<close>

theorem migrateConfig_version:
  assumes "getAgentConfig (JStr ''claude'') = Some p"
  shows "\<exists>out. migrateConfig getAgentConfig CURRENT_VERSION config = Inr out
           \<and> loadConfig getAgentConfig CURRENT_VERSION (Some config) = Inr (Some out)
           \<and> get_prop out ''version'' =
               (case map_of config ''version'' of
                  Some stored \<Rightarrow> stored
                | None \<Rightarrow> JStr CURRENT_VERSION)"
  using migrateConfig_fields[of getAgentConfig p CURRENT_VERSION config] assms
  by (auto simp: loadConfig_def)

text \<open>Two runs: a file without a version, and a file that stores version 0.0.1.\<close>

theorem migrateConfig_version_witness:
  "sampleRegistry (JStr ''claude'') = Some claudeProfile
   \<and> (\<exists>out. migrateConfig sampleRegistry ''2.1.0'' [(''agent'', JStr ''opencode'')] = Inr out
           \<and> loadConfig sampleRegistry ''2.1.0'' (Some [(''agent'', JStr ''opencode'')]) = Inr (Some out)
           \<and> get_prop out ''version'' = JStr ''2.1.0'')
   \<and> (\<exists>out. migrateConfig sampleRegistry ''2.1.0'' [(''version'', JStr ''0.0.1'')] = Inr out
           \<and> loadConfig sampleRegistry ''2.1.0'' (Some [(''version'', JStr ''0.0.1'')]) = Inr (Some out)
           \<and> get_prop out ''version'' = JStr ''0.0.1'')"
  using migrateConfig_version[of sampleRegistry claudeProfile "''2.1.0''" "[(''agent'', JStr ''opencode'')]"]
        migrateConfig_version[of sampleRegistry claudeProfile "''2.1.0''" "[(''version'', JStr ''0.0.1'')]"]
  by (simp add: sampleRegistry_def)

text \<open>
  The stored version 0.0.1 comes back from a tool whose current version is 2.1.0, so the
  returned version does not equal the current version.
\<close>

theorem migrateConfig_version_counterexample:
  "migrateConfig sampleRegistry ''2.1.0'' [(''version'', JStr ''0.0.1'')] =
     Inr [(''version'', JStr ''0.0.1''),
          (''agent'', JStr ''claude''),
          (''skillsDir'', JStr ''.claude/skills''),
          (''installedSkills'', JArr []),
          (''mcp'', JObj [(''github'', JBool False), (''filesystem'', JBool False),
                          (''postgres'', JBool False), (''chromeDevtools'', JBool False)])]
   \<and> get_prop (projr (migrateConfig sampleRegistry ''2.1.0'' [(''version'', JStr ''0.0.1'')])) ''version''
       \<noteq> JStr ''2.1.0''"
  by (simp add: migrateConfig_def createDefaultConfig_def resolveAgentId_def sampleRegistry_def
        claudeProfile_def get_prop_def set_prop_def spread_def nullish_def Let_def)

text \<open>
  Claim C3. With \<open>claude\<close> a registered agent, the \<open>mcp\<close> field of the result of
  \<open>migrateConfig\<close> is an object merged key by key: every property of the input's \<open>mcp\<close>
  value is there with the input's value, and each of the four flags that the input does
  not have keeps its default \<open>false\<close>, also when the input has no \<open>mcp\<close> field at all
  (\<open>config.mcp ?? {}\<close>).
\<close>

theorem migrateConfig_mcp_merge:
  assumes "getAgentConfig (JStr ''claude'') = Some p"
  shows "\<exists>out merged. migrateConfig getAgentConfig CURRENT_VERSION config = Inr out
           \<and> get_prop out ''mcp'' = JObj merged
           \<and> (\<forall>flag v. map_of (own_entries (nullish (get_prop config ''mcp'') (JObj []))) flag = Some v
                  \<longrightarrow> get_prop merged flag = v)
           \<and> (\<forall>flag \<in> {''github'', ''filesystem'', ''postgres'', ''chromeDevtools''}.
                  map_of (own_entries (nullish (get_prop config ''mcp'') (JObj []))) flag = None
                  \<longrightarrow> get_prop merged flag = JBool False)"
proof -
  from migrateConfig_fields[of getAgentConfig p CURRENT_VERSION config] assms
  obtain out where o: "migrateConfig getAgentConfig CURRENT_VERSION config = Inr out"
    and m: "get_prop out ''mcp'' =
                 JObj (spread [(''github'', JBool False), (''filesystem'', JBool False),
                               (''postgres'', JBool False), (''chromeDevtools'', JBool False)]
                              (own_entries (nullish (get_prop config ''mcp'') (JObj []))))"
    by blast
  have d: "\<forall>flag \<in> {''github'', ''filesystem'', ''postgres'', ''chromeDevtools''}.
             get_prop [(''github'', JBool False), (''filesystem'', JBool False),
                       (''postgres'', JBool False), (''chromeDevtools'', JBool False)] flag = JBool False"
    by (simp add: get_prop_def)
  show ?thesis
    using o m d by (simp add: get_spread)
qed

text \<open>The input \<open>{mcp: {github: true}}\<close> loses no sibling flag.\<close>

theorem migrateConfig_mcp_merge_witness:
  "sampleRegistry (JStr ''claude'') = Some claudeProfile
   \<and> (\<exists>out merged. migrateConfig sampleRegistry ''2.1.0'' [(''mcp'', JObj [(''github'', JBool True)])] = Inr out
           \<and> get_prop out ''mcp'' = JObj merged
           \<and> get_prop merged ''github'' = JBool True
           \<and> get_prop merged ''filesystem'' = JBool False
           \<and> get_prop merged ''postgres'' = JBool False
           \<and> get_prop merged ''chromeDevtools'' = JBool False)"
proof -
  have h: "sampleRegistry (JStr ''claude'') = Some claudeProfile"
    by (simp add: sampleRegistry_def)
  have e: "own_entries (nullish (get_prop [(''mcp'', JObj [(''github'', JBool True)])] ''mcp'') (JObj []))
           = [(''github'', JBool True)]"
    by (simp add: get_prop_Cons nullish_def)
  from migrateConfig_mcp_merge[of sampleRegistry claudeProfile "''2.1.0''"
         "[(''mcp'', JObj [(''github'', JBool True)])]", OF h]
  obtain out merged where
    1: "migrateConfig sampleRegistry ''2.1.0'' [(''mcp'', JObj [(''github'', JBool True)])] = Inr out"
    and 2: "get_prop out ''mcp'' = JObj merged"
    and 3: "\<forall>flag v. map_of [(''github'', JBool True)] flag = Some v \<longrightarrow> get_prop merged flag = v"
    and 4: "\<forall>flag \<in> {''github'', ''filesystem'', ''postgres'', ''chromeDevtools''}.
              map_of [(''github'', JBool True)] flag = None \<longrightarrow> get_prop merged flag = JBool False"
    unfolding e by blast
  from 3 have 5: "get_prop merged ''github'' = JBool True" by simp
  from 4 have 6: "get_prop merged ''filesystem'' = JBool False"
    and 7: "get_prop merged ''postgres'' = JBool False"
    and 8: "get_prop merged ''chromeDevtools'' = JBool False" by simp_all
  show ?thesis using h 1 2 5 6 7 8 by blast
qed

text \<open>
  Claim C9. With \<open>claude\<close> a registered agent, \<open>migrateConfig\<close> returns a configuration for
  every input object. Its \<open>agent\<close> is \<open>claude\<close> when the input has no \<open>agent\<close> or the
  registry does not know the stored value, and the stored value when that is a (truthy)
  value the registry knows.
\<close>

theorem migrateConfig_total_agent:
  assumes "getAgentConfig (JStr ''claude'') = Some p"
  shows "\<exists>out. migrateConfig getAgentConfig CURRENT_VERSION config = Inr out
           \<and> (map_of config ''agent'' = None \<or> getAgentConfig (get_prop config ''agent'') = None
                \<longrightarrow> get_prop out ''agent'' = JStr ''claude'')
           \<and> (truthy (get_prop config ''agent'') \<and> getAgentConfig (get_prop config ''agent'') \<noteq> None
                \<longrightarrow> get_prop out ''agent'' = get_prop config ''agent'')"
proof -
  from migrateConfig_fields[of getAgentConfig p CURRENT_VERSION config] assms
  obtain out where o: "migrateConfig getAgentConfig CURRENT_VERSION config = Inr out"
    and a: "get_prop out ''agent'' = resolveAgentId getAgentConfig (get_prop config ''agent'')"
    by blast
  have u: "map_of config ''agent'' = None \<Longrightarrow> \<not> truthy (get_prop config ''agent'')"
    by (simp add: get_prop_def)
  show ?thesis
    using o a u by (auto simp: resolveAgentId_cases)
qed

text \<open>An unknown agent, no agent, and a known agent.\<close>

theorem migrateConfig_total_agent_witness:
  "sampleRegistry (JStr ''claude'') = Some claudeProfile
   \<and> (\<exists>out. migrateConfig sampleRegistry ''2.1.0'' [(''agent'', JStr ''nope'')] = Inr out
           \<and> get_prop out ''agent'' = JStr ''claude'')
   \<and> (\<exists>out. migrateConfig sampleRegistry ''2.1.0'' [] = Inr out
           \<and> get_prop out ''agent'' = JStr ''claude'')
   \<and> (\<exists>out. migrateConfig sampleRegistry ''2.1.0'' [(''agent'', JStr ''opencode'')] = Inr out
           \<and> get_prop out ''agent'' = JStr ''opencode'')"
  using migrateConfig_total_agent[of sampleRegistry claudeProfile "''2.1.0''" "[(''agent'', JStr ''nope'')]"]
        migrateConfig_total_agent[of sampleRegistry claudeProfile "''2.1.0''" "[]"]
        migrateConfig_total_agent[of sampleRegistry claudeProfile "''2.1.0''" "[(''agent'', JStr ''opencode'')]"]
  by (auto simp: sampleRegistry_def get_prop_Cons get_prop_Nil)

text \<open>
  Claim C10. With \<open>claude\<close> a registered agent, the \<open>installedSkills\<close> of the result of
  \<open>migrateConfig\<close>, hence of \<open>loadConfig\<close>, is always an array: the empty array when the
  stored value is not an array, the stored array otherwise.
\<close>

theorem migrateConfig_installedSkills_array:
  assumes "getAgentConfig (JStr ''claude'') = Some p"
  shows "\<exists>out. migrateConfig getAgentConfig CURRENT_VERSION config = Inr out
           \<and> loadConfig getAgentConfig CURRENT_VERSION (Some config) = Inr (Some out)
           \<and> isArray (get_prop out ''installedSkills'')
           \<and> (\<not> isArray (get_prop config ''installedSkills'')
                \<longrightarrow> get_prop out ''installedSkills'' = JArr [])
           \<and> (isArray (get_prop config ''installedSkills'')
                \<longrightarrow> get_prop out ''installedSkills'' = get_prop config ''installedSkills'')"
  using migrateConfig_fields[of getAgentConfig p CURRENT_VERSION config] assms
  by (auto simp: loadConfig_def)

text \<open>A string, an object and an array as the stored value.\<close>

theorem migrateConfig_installedSkills_array_witness:
  "sampleRegistry (JStr ''claude'') = Some claudeProfile
   \<and> (\<exists>out. migrateConfig sampleRegistry ''2.1.0'' [(''installedSkills'', JStr ''writing'')] = Inr out
           \<and> get_prop out ''installedSkills'' = JArr [])
   \<and> (\<exists>out. migrateConfig sampleRegistry ''2.1.0'' [(''installedSkills'', JObj [(''a'', JNum 1)])] = Inr out
           \<and> get_prop out ''installedSkills'' = JArr [])
   \<and> (\<exists>out. migrateConfig sampleRegistry ''2.1.0'' [(''installedSkills'', JArr [JStr ''writing''])] = Inr out
           \<and> get_prop out ''installedSkills'' = JArr [JStr ''writing''])"
  using migrateConfig_installedSkills_array[of sampleRegistry claudeProfile "''2.1.0''" "[(''installedSkills'', JStr ''writing'')]"]
        migrateConfig_installedSkills_array[of sampleRegistry claudeProfile "''2.1.0''" "[(''installedSkills'', JObj [(''a'', JNum 1)])]"]
        migrateConfig_installedSkills_array[of sampleRegistry claudeProfile "''2.1.0''" "[(''installedSkills'', JArr [JStr ''writing''])]"]
  by (auto simp: sampleRegistry_def get_prop_Cons get_prop_Nil)


section \<open>Properties of the MCP provisioner\<close>

lemma map_of_set_prop: "map_of (set_prop obj k v) = (map_of obj)(k \<mapsto> v)"
  by (simp add: set_prop_def update_conv')

lemma selectTemplates_mem:
  "(k, t) \<in> set (selectTemplates pkg options d fl) \<Longrightarrow> k \<in> fst ` set fl"
  by (induction fl) (auto split: option.splits if_splits)

lemma selectTemplates_keys:
  "set (map fst (selectTemplates pkg options d fl)) \<subseteq> set (map fst fl)"
  using selectTemplates_mem by fastforce

lemma selectTemplates_distinct:
  "distinct (map fst fl) \<Longrightarrow> distinct (map fst (selectTemplates pkg options d fl))"
proof (induction fl)
  case Nil
  then show ?case by simp
next
  case (Cons a fl)
  obtain key fname where a: "a = (key, fname)" by (cases a)
  have "key \<notin> set (map fst (selectTemplates pkg options d fl))"
    using Cons.prems selectTemplates_keys[of pkg options d fl] a by auto
  then show ?case using Cons a by (auto split: option.splits)
qed

lemma selectTemplates_empty:
  "(\<forall>(key, file) \<in> set fl. \<not> option_flag options key \<or> readTemplate pkg (path_join [d, file]) = None)
   \<Longrightarrow> selectTemplates pkg options d fl = []"
  by (induction fl) (auto split: option.splits)

lemma MCP_SERVER_FILES_distinct: "distinct (map fst MCP_SERVER_FILES)"
  by (simp add: MCP_SERVER_FILES_def)

lemma getSelected_distinct: "distinct (map fst (getSelectedServerTemplates pkg options d))"
  unfolding getSelectedServerTemplates_def
  by (rule selectTemplates_distinct[OF MCP_SERVER_FILES_distinct])


text \<open>The loop of \<open>assignServers\<close> on an object, on an array and on any other value.\<close>

lemma assignServers_obj:
  "assignServers conv sel (JObj kvs, acc) = Inr (JObj (assignAll conv sel kvs), acc @ map fst sel)"
  by (induction sel arbitrary: kvs acc) auto

lemma assignServers_arr:
  "assignServers conv sel (JArr xs, acc) = Inr (JArr xs, acc @ map fst sel)"
  by (induction sel arbitrary: acc) auto

lemma assignServers_prim:
  "\<not> isArray v \<Longrightarrow> (\<forall>kvs. v \<noteq> JObj kvs) \<Longrightarrow> sel \<noteq> [] \<Longrightarrow> \<exists>e. assignServers conv sel (v, acc) = Inl e"
  by (cases sel; cases v) auto

lemma assignAll_other:
  "name \<notin> set (map fst sel) \<Longrightarrow> map_of (assignAll conv sel kvs) name = map_of kvs name"
  by (induction sel arbitrary: kvs) (auto simp: map_of_set_prop)

lemma assignAll_selected:
  "distinct (map fst sel) \<Longrightarrow> (key, t) \<in> set sel \<Longrightarrow> map_of (assignAll conv sel kvs) key = Some (conv t)"
proof (induction sel arbitrary: kvs)
  case Nil
  then show ?case by simp
next
  case (Cons a sel)
  obtain k u where a: "a = (k, u)" by (cases a)
  show ?case
  proof (cases "(key, t) = a")
    case True
    then have k: "key \<notin> set (map fst sel)" and ku: "k = key" "u = t"
      using Cons.prems(1) a by auto
    have "map_of (assignAll conv sel (set_prop kvs key (conv t))) key
            = map_of (set_prop kvs key (conv t)) key"
      by (rule assignAll_other[OF k])
    then show ?thesis using a ku by (simp add: map_of_set_prop)
  next
    case False
    then have m: "(key, t) \<in> set sel" using Cons.prems(2) by simp
    have d: "distinct (map fst sel)" using Cons.prems(1) by simp
    show ?thesis using Cons.IH[OF d m] a by simp
  qed
qed

lemma readJson_write: "readJsonFile (writeJsonFile p d fs) p = Some d"
  by (simp add: readJsonFile_def writeJsonFile_def update_conv')

lemma files_write_other: "q \<noteq> p \<Longrightarrow> map_of (files (writeJsonFile p d fs)) q = map_of (files fs) q"
  by (simp add: writeJsonFile_def update_conv')

lemma files_ensureDir: "files (ensureDir d fs) = files fs"
  by (simp add: ensureDir_def)

lemma readJson_ensureDir: "readJsonFile (ensureDir d fs) p = readJsonFile fs p"
  by (simp add: readJsonFile_def files_ensureDir)

lemma settings0_eq:
  "(if fileExists fs p then (case readJsonFile fs p of Some existing \<Rightarrow> existing | None \<Rightarrow> []) else [])
   = loadedSettings fs p"
  by (auto simp: fileExists_def readJsonFile_def loadedSettings_def split: option.splits file_content.splits)

text \<open>The result of one branch, by the shape of the old sub-map.\<close>

lemma mergeIntoSettings_cases:
  assumes "mergeIntoSettings mcpKey conv p sel fs = Inr (fs', servers)" and "sel \<noteq> []"
  shows "servers = map fst sel \<and>
         (\<exists>sub. fs' = writeJsonFile p (set_prop (loadedSettings fs p) mcpKey sub) fs \<and>
            (case get_prop (loadedSettings fs p) mcpKey of
               JObj kvs \<Rightarrow> sub = JObj (assignAll conv sel kvs)
             | JArr xs \<Rightarrow> sub = JArr xs
             | v \<Rightarrow> \<not> truthy v \<and> sub = JObj (assignAll conv sel [])))"
proof (cases "truthy (get_prop (loadedSettings fs p) mcpKey)")
  case True
  let ?v = "get_prop (loadedSettings fs p) mcpKey"
  have m: "assignServers conv sel (?v, []) = Inr (sub, cs) \<Longrightarrow>
           fs' = writeJsonFile p (set_prop (loadedSettings fs p) mcpKey sub) fs \<and> servers = cs" for sub cs
    using assms(1) True by (simp add: mergeIntoSettings_def settings0_eq Let_def)
  have n: "\<exists>sub cs. assignServers conv sel (?v, []) = Inr (sub, cs)"
    using assms(1) True by (auto simp add: mergeIntoSettings_def settings0_eq Let_def split: sum.splits)
  show ?thesis
  proof (cases ?v)
    case (JObj kvs)
    then show ?thesis using m[of "JObj (assignAll conv sel kvs)" "map fst sel"]
      by (simp add: assignServers_obj)
  next
    case (JArr xs)
    then show ?thesis using m[of "JArr xs" "map fst sel"]
      by (simp add: assignServers_arr)
  next
    case JUndefined then show ?thesis using True by simp
  next
    case JNull then show ?thesis using True by simp
  next
    case (JBool b)
    then show ?thesis using n assignServers_prim[of ?v sel conv "[]"] assms(2) by auto
  next
    case (JNum i)
    then show ?thesis using n assignServers_prim[of ?v sel conv "[]"] assms(2) by auto
  next
    case (JStr t)
    then show ?thesis using n assignServers_prim[of ?v sel conv "[]"] assms(2) by auto
  qed
next
  case False
  let ?v = "get_prop (loadedSettings fs p) mcpKey"
  have m: "fs' = writeJsonFile p (set_prop (set_prop (loadedSettings fs p) mcpKey (JObj [])) mcpKey (JObj (assignAll conv sel []))) fs
             \<and> servers = map fst sel"
    using assms(1) False
    by (simp add: mergeIntoSettings_def settings0_eq Let_def get_set_same assignServers_obj)
  have u: "set_prop (set_prop d k a) k b = set_prop d k b" for d k a b
    by (simp add: set_prop_def)
  show ?thesis
    using m False by (cases ?v) (auto simp: u)
qed


lemma configureMcp_gate:
  assumes "g (JStr agId) = Some ag"
    and "\<not> supportsMcp ag \<or> settingsFile ag = None \<or> settingsFile ag = Some []"
  shows "configureMcp g pkg projDir options agId fs = Inr (fs, [])"
  using assms by (auto simp: configureMcp_def split: option.splits)

lemma configureMcp_active:
  assumes "g (JStr agId) = Some ag" and "settingsFile ag = Some sf" and "supportsMcp ag" and "sf \<noteq> []"
  shows "configureMcp g pkg projDir options agId fs =
     (if getSelectedServerTemplates pkg options (path_join [getMcpDir pkg, ''templates'']) = []
      then Inr (ensureDir (path_dirname (settingsPathOf projDir ag)) fs, [])
      else mergeIntoSettings (mcpKeyOf agId)
             (if agId = ''opencode'' then (\<lambda>t. js_of_OpenCode (toOpenCodeFormat t)) else js_of_McpServerConfig)
             (settingsPathOf projDir ag)
             (getSelectedServerTemplates pkg options (path_join [getMcpDir pkg, ''templates'']))
             (ensureDir (path_dirname (settingsPathOf projDir ag)) fs))"
  using assms by (simp add: configureMcp_def Let_def settingsPathOf_def mcpKeyOf_def)

lemma configureMcp_wrote:
  assumes "configureMcp g pkg projDir options agId fs = Inr (fs', servers)" and "servers \<noteq> []"
    and "g (JStr agId) = Some ag"
  shows "getSelectedServerTemplates pkg options (path_join [getMcpDir pkg, ''templates'']) \<noteq> [] \<and>
      mergeIntoSettings (mcpKeyOf agId)
             (if agId = ''opencode'' then (\<lambda>t. js_of_OpenCode (toOpenCodeFormat t)) else js_of_McpServerConfig)
             (settingsPathOf projDir ag)
             (getSelectedServerTemplates pkg options (path_join [getMcpDir pkg, ''templates'']))
             (ensureDir (path_dirname (settingsPathOf projDir ag)) fs) = Inr (fs', servers)"
proof -
  have a: "\<not> (\<not> supportsMcp ag \<or> settingsFile ag = None \<or> settingsFile ag = Some [])"
  proof
    assume "\<not> supportsMcp ag \<or> settingsFile ag = None \<or> settingsFile ag = Some []"
    then have "configureMcp g pkg projDir options agId fs = Inr (fs, [])"
      using assms(3) by (rule configureMcp_gate[rotated])
    then show False using assms(1,2) by simp
  qed
  then obtain sf where sf: "settingsFile ag = Some sf" "sf \<noteq> []" "supportsMcp ag" by auto
  show ?thesis
    using configureMcp_active[of g agId ag sf pkg projDir options fs] assms sf
    by (auto split: if_splits)
qed

lemma loadedSettings_ensureDir: "loadedSettings (ensureDir d fs) p = loadedSettings fs p"
  by (simp add: loadedSettings_def readJson_ensureDir)

lemma entries_kept:
  assumes "case v of JObj kvs \<Rightarrow> sub = JObj (assignAll conv sel kvs) | JArr xs \<Rightarrow> sub = JArr xs
           | w \<Rightarrow> \<not> truthy w \<and> sub = JObj (assignAll conv sel [])"
    and "name \<notin> set (map fst sel)"
  shows "map_of (own_entries sub) name = map_of (own_entries v) name"
  using assms by (cases v) (auto simp: assignAll_other)

text \<open>
  Claim C8. When \<open>configureMcp\<close> returns a non-empty list of servers it has written the
  settings file, and the written document differs from the loaded one (or from \<open>{}\<close>
  when there was none) under the MCP key only: every other top-level key has its old
  value, and under the MCP key every entry that is not one of the returned servers is as
  before. No other file of the project is changed.
\<close>

theorem configureMcp_frame:
  assumes "configureMcp g pkg projDir options agId fs = Inr (fs', servers)" and "servers \<noteq> []"
    and "g (JStr agId) = Some ag"
  shows "\<exists>doc. readJsonFile fs' (settingsPathOf projDir ag) = Some doc
           \<and> (\<forall>k. k \<noteq> mcpKeyOf agId \<longrightarrow>
                  map_of doc k = map_of (loadedSettings fs (settingsPathOf projDir ag)) k)
           \<and> (\<forall>name. name \<notin> set servers \<longrightarrow>
                  map_of (own_entries (get_prop doc (mcpKeyOf agId))) name
                  = map_of (own_entries (get_prop (loadedSettings fs (settingsPathOf projDir ag))
                                                  (mcpKeyOf agId))) name)
           \<and> (\<forall>q. q \<noteq> settingsPathOf projDir ag \<longrightarrow> map_of (files fs') q = map_of (files fs) q)"
proof -
  let ?p = "settingsPathOf projDir ag"
  let ?sel = "getSelectedServerTemplates pkg options (path_join [getMcpDir pkg, ''templates''])"
  let ?conv = "if agId = ''opencode'' then (\<lambda>t. js_of_OpenCode (toOpenCodeFormat t)) else js_of_McpServerConfig"
  let ?fs1 = "ensureDir (path_dirname ?p) fs"
  let ?old = "loadedSettings fs ?p"
  from configureMcp_wrote[OF assms(1) assms(2), of ag] assms(3)
  have ne: "?sel \<noteq> []" and m: "mergeIntoSettings (mcpKeyOf agId) ?conv ?p ?sel ?fs1 = Inr (fs', servers)"
    by auto
  from mergeIntoSettings_cases[OF m ne] obtain sub where
    s: "servers = map fst ?sel"
    and f: "fs' = writeJsonFile ?p (set_prop ?old (mcpKeyOf agId) sub) ?fs1"
    and c: "case get_prop ?old (mcpKeyOf agId) of
               JObj kvs \<Rightarrow> sub = JObj (assignAll ?conv ?sel kvs)
             | JArr xs \<Rightarrow> sub = JArr xs
             | v \<Rightarrow> \<not> truthy v \<and> sub = JObj (assignAll ?conv ?sel [])"
    by (auto simp: loadedSettings_ensureDir)
  let ?doc = "set_prop ?old (mcpKeyOf agId) sub"
  have 1: "readJsonFile fs' ?p = Some ?doc" by (simp add: f readJson_write)
  have 2: "\<forall>k. k \<noteq> mcpKeyOf agId \<longrightarrow> map_of ?doc k = map_of ?old k"
    by (simp add: map_of_set_prop)
  have 3: "\<forall>name. name \<notin> set servers \<longrightarrow>
             map_of (own_entries (get_prop ?doc (mcpKeyOf agId))) name
             = map_of (own_entries (get_prop ?old (mcpKeyOf agId))) name"
    using entries_kept[OF c] by (simp add: get_set_same s)
  have 4: "\<forall>q. q \<noteq> ?p \<longrightarrow> map_of (files fs') q = map_of (files fs) q"
    by (simp add: f files_write_other files_ensureDir)
  show ?thesis using 1 2 3 4 by blast
qed

lemma stored_entry:
  assumes "case v of JObj kvs \<Rightarrow> sub = JObj (assignAll conv sel kvs) | JArr xs \<Rightarrow> sub = JArr xs
           | w \<Rightarrow> \<not> truthy w \<and> sub = JObj (assignAll conv sel [])"
    and "\<not> isArray v" and "distinct (map fst sel)" and "(key, t) \<in> set sel"
  shows "\<exists>kvs. sub = JObj kvs \<and> map_of kvs key = Some (conv t)"
  using assms by (cases v) (auto simp: assignAll_selected)

lemma selectTemplates_selected:
  "(key, fname) \<in> set fl \<Longrightarrow> option_flag options key \<Longrightarrow>
   readTemplate pkg (path_join [d, fname]) = Some t \<Longrightarrow>
   (key, t) \<in> set (selectTemplates pkg options d fl)"
  by (induction fl) (auto split: option.splits)

lemma mergeIntoSettings_runs:
  assumes "\<not> truthy (get_prop (loadedSettings fs p) mcpKey)
           \<or> (\<exists>kvs. get_prop (loadedSettings fs p) mcpKey = JObj kvs)"
  shows "\<exists>fs'. mergeIntoSettings mcpKey conv p sel fs = Inr (fs', map fst sel)"
proof (cases "truthy (get_prop (loadedSettings fs p) mcpKey)")
  case True
  then obtain kvs where "get_prop (loadedSettings fs p) mcpKey = JObj kvs"
    using assms by blast
  then show ?thesis
    by (simp add: mergeIntoSettings_def settings0_eq Let_def assignServers_obj)
next
  case False
  then show ?thesis
    by (simp add: mergeIntoSettings_def settings0_eq Let_def get_set_same assignServers_obj)
qed

text \<open>
  Claim C5. \<open>toOpenCodeFormat\<close> gives type \<open>local\<close>, the command followed by the
  arguments (none when \<open>args\<close> is absent) and an environment that is present, and equal
  to \<open>env\<close>, exactly when the template has \<open>env\<close>. For an agent that passes the
  capability gate, a server whose flag is set and whose template file is there, and a
  loaded settings document whose MCP sub-map is absent, falsy or an object,
  \<open>configureMcp\<close> returns normally with the server's key in its list, and the written
  settings file has the server under that key: the OpenCode conversion under \<open>mcp\<close> for
  the agent \<open>opencode\<close>, the template unchanged under \<open>mcpServers\<close> for any other agent.
\<close>

theorem configureMcp_stores:
  "oc_type (toOpenCodeFormat t) = ''local''
   \<and> oc_command (toOpenCodeFormat t) = command t # (case args t of Some a \<Rightarrow> a | None \<Rightarrow> [])
   \<and> oc_environment (toOpenCodeFormat t) = env t
   \<and> (g (JStr agId) = Some ag \<and> supportsMcp ag \<and> settingsFile ag = Some sf \<and> sf \<noteq> []
      \<and> (key, fname) \<in> set MCP_SERVER_FILES \<and> option_flag options key
      \<and> readTemplate pkg (path_join [path_join [getMcpDir pkg, ''templates''], fname]) = Some t
      \<and> (\<not> truthy (get_prop (loadedSettings fs (settingsPathOf projDir ag)) (mcpKeyOf agId))
           \<or> (\<exists>kvs. get_prop (loadedSettings fs (settingsPathOf projDir ag)) (mcpKeyOf agId) = JObj kvs))
      \<longrightarrow> (\<exists>fs' servers doc sub.
               configureMcp g pkg projDir options agId fs = Inr (fs', servers)
             \<and> key \<in> set servers
             \<and> readJsonFile fs' (settingsPathOf projDir ag) = Some doc
             \<and> get_prop doc (mcpKeyOf agId) = JObj sub
             \<and> get_prop sub key =
                 (if agId = ''opencode''
                  then JObj ([(''type'', JStr ''local''),
                              (''command'', JArr (map JStr (command t # (case args t of Some a \<Rightarrow> a | None \<Rightarrow> []))))]
                             @ (case env t of Some e \<Rightarrow> [(''environment'', js_of_record e)] | None \<Rightarrow> []))
                  else JObj ([(''command'', JStr (command t))]
                             @ (case args t of Some a \<Rightarrow> [(''args'', JArr (map JStr a))] | None \<Rightarrow> [])
                             @ (case env t of Some e \<Rightarrow> [(''env'', js_of_record e)] | None \<Rightarrow> [])))))"
proof -
  have a: "oc_type (toOpenCodeFormat t) = ''local''"
    and b: "oc_command (toOpenCodeFormat t) = command t # (case args t of Some a \<Rightarrow> a | None \<Rightarrow> [])"
    and c: "oc_environment (toOpenCodeFormat t) = env t"
    by (simp_all add: toOpenCodeFormat_def Let_def split: option.splits)
  have d: "\<exists>fs' servers doc sub.
               configureMcp g pkg projDir options agId fs = Inr (fs', servers)
             \<and> key \<in> set servers
             \<and> readJsonFile fs' (settingsPathOf projDir ag) = Some doc
             \<and> get_prop doc (mcpKeyOf agId) = JObj sub
             \<and> get_prop sub key =
                 (if agId = ''opencode'' then js_of_OpenCode (toOpenCodeFormat t)
                  else js_of_McpServerConfig t)"
    if g: "g (JStr agId) = Some ag" and su: "supportsMcp ag" and sf: "settingsFile ag = Some sf" "sf \<noteq> []"
      and kf: "(key, fname) \<in> set MCP_SERVER_FILES" and fl: "option_flag options key"
      and rt: "readTemplate pkg (path_join [path_join [getMcpDir pkg, ''templates''], fname]) = Some t"
      and ob: "\<not> truthy (get_prop (loadedSettings fs (settingsPathOf projDir ag)) (mcpKeyOf agId))
           \<or> (\<exists>kvs. get_prop (loadedSettings fs (settingsPathOf projDir ag)) (mcpKeyOf agId) = JObj kvs)"
  proof -
    let ?p = "settingsPathOf projDir ag"
    let ?sel = "getSelectedServerTemplates pkg options (path_join [getMcpDir pkg, ''templates''])"
    let ?conv = "if agId = ''opencode'' then (\<lambda>t. js_of_OpenCode (toOpenCodeFormat t)) else js_of_McpServerConfig"
    let ?fs1 = "ensureDir (path_dirname ?p) fs"
    let ?old = "loadedSettings fs ?p"
    have k: "(key, t) \<in> set ?sel"
      unfolding getSelectedServerTemplates_def using kf fl rt by (rule selectTemplates_selected)
    then have ne: "?sel \<noteq> []" by auto
    have ob1: "\<not> truthy (get_prop (loadedSettings ?fs1 ?p) (mcpKeyOf agId))
           \<or> (\<exists>kvs. get_prop (loadedSettings ?fs1 ?p) (mcpKeyOf agId) = JObj kvs)"
      using ob by (simp add: loadedSettings_ensureDir)
    from mergeIntoSettings_runs[OF ob1, of ?conv ?sel] obtain fs' where
      m: "mergeIntoSettings (mcpKeyOf agId) ?conv ?p ?sel ?fs1 = Inr (fs', map fst ?sel)" by blast
    have r: "configureMcp g pkg projDir options agId fs = Inr (fs', map fst ?sel)"
      using configureMcp_active[of g agId ag sf pkg projDir options fs] g su sf ne m by simp
    have ks: "key \<in> set (map fst ?sel)" using k by force
    have na: "\<not> isArray (get_prop ?old (mcpKeyOf agId))"
      using ob by (cases "get_prop ?old (mcpKeyOf agId)") auto
    from mergeIntoSettings_cases[OF m ne] obtain sub where
      f: "fs' = writeJsonFile ?p (set_prop ?old (mcpKeyOf agId) sub) ?fs1"
      and c: "case get_prop ?old (mcpKeyOf agId) of
               JObj kvs \<Rightarrow> sub = JObj (assignAll ?conv ?sel kvs)
             | JArr xs \<Rightarrow> sub = JArr xs
             | v \<Rightarrow> \<not> truthy v \<and> sub = JObj (assignAll ?conv ?sel [])"
      by (auto simp: loadedSettings_ensureDir)
    from stored_entry[OF c na getSelected_distinct k] obtain kvs where
      kv: "sub = JObj kvs" "map_of kvs key = Some (?conv t)" by blast
    have 1: "readJsonFile fs' ?p = Some (set_prop ?old (mcpKeyOf agId) sub)"
      by (simp add: f readJson_write)
    have 2: "get_prop (set_prop ?old (mcpKeyOf agId) sub) (mcpKeyOf agId) = JObj kvs"
      by (simp add: get_set_same kv)
    have 3: "get_prop kvs key = (if agId = ''opencode'' then js_of_OpenCode (toOpenCodeFormat t)
                  else js_of_McpServerConfig t)"
      using kv(2) by (simp add: get_prop_def)
    show ?thesis using r ks 1 2 3 by blast
  qed
  have e: "js_of_OpenCode (toOpenCodeFormat t) =
           JObj ([(''type'', JStr ''local''),
                  (''command'', JArr (map JStr (command t # (case args t of Some a \<Rightarrow> a | None \<Rightarrow> []))))]
                 @ (case env t of Some e \<Rightarrow> [(''environment'', js_of_record e)] | None \<Rightarrow> []))"
    by (simp add: js_of_OpenCode_def a b c)
  have e': "js_of_McpServerConfig t =
           JObj ([(''command'', JStr (command t))]
                 @ (case args t of Some a \<Rightarrow> [(''args'', JArr (map JStr a))] | None \<Rightarrow> [])
                 @ (case env t of Some e \<Rightarrow> [(''env'', js_of_record e)] | None \<Rightarrow> []))"
    by (simp add: js_of_McpServerConfig_def)
  show ?thesis
  proof (intro conjI impI)
    assume h: "g (JStr agId) = Some ag \<and> supportsMcp ag \<and> settingsFile ag = Some sf \<and> sf \<noteq> []
      \<and> (key, fname) \<in> set MCP_SERVER_FILES \<and> option_flag options key
      \<and> readTemplate pkg (path_join [path_join [getMcpDir pkg, ''templates''], fname]) = Some t
      \<and> (\<not> truthy (get_prop (loadedSettings fs (settingsPathOf projDir ag)) (mcpKeyOf agId))
           \<or> (\<exists>kvs. get_prop (loadedSettings fs (settingsPathOf projDir ag)) (mcpKeyOf agId) = JObj kvs))"
    from h d show "\<exists>fs' servers doc sub.
               configureMcp g pkg projDir options agId fs = Inr (fs', servers)
             \<and> key \<in> set servers
             \<and> readJsonFile fs' (settingsPathOf projDir ag) = Some doc
             \<and> get_prop doc (mcpKeyOf agId) = JObj sub
             \<and> get_prop sub key =
                 (if agId = ''opencode''
                  then JObj ([(''type'', JStr ''local''),
                              (''command'', JArr (map JStr (command t # (case args t of Some a \<Rightarrow> a | None \<Rightarrow> []))))]
                             @ (case env t of Some e \<Rightarrow> [(''environment'', js_of_record e)] | None \<Rightarrow> []))
                  else JObj ([(''command'', JStr (command t))]
                             @ (case args t of Some a \<Rightarrow> [(''args'', JArr (map JStr a))] | None \<Rightarrow> [])
                             @ (case env t of Some e \<Rightarrow> [(''env'', js_of_record e)] | None \<Rightarrow> [])))"
      unfolding e[symmetric] e'[symmetric] by blast
  qed (rule a, rule b, rule c)
qed

text \<open>
  Claim C4. For an agent with \<open>supportsMcp\<close> false or without a settings file,
  \<open>configureMcp\<close> returns the empty list and leaves the whole file system as it is. When
  no template is selected (every flag false, or the template file of every set flag
  missing), it returns the empty list and the files of the project are unchanged: the
  settings file is neither written nor created.
\<close>

theorem configureMcp_noop:
  assumes "g (JStr agId) = Some ag"
  shows "(\<not> supportsMcp ag \<or> settingsFile ag = None \<or> settingsFile ag = Some []
            \<longrightarrow> configureMcp g pkg projDir options agId fs = Inr (fs, []))
       \<and> ((\<forall>(key, fname) \<in> set MCP_SERVER_FILES.
              \<not> option_flag options key
              \<or> readTemplate pkg (path_join [path_join [getMcpDir pkg, ''templates''], fname]) = None)
            \<longrightarrow> (\<exists>fs'. configureMcp g pkg projDir options agId fs = Inr (fs', [])
                      \<and> files fs' = files fs))
       \<and> (\<not> github options \<and> \<not> filesystem options \<and> \<not> postgres options \<and> \<not> chromeDevtools options
            \<longrightarrow> (\<exists>fs'. configureMcp g pkg projDir options agId fs = Inr (fs', [])
                      \<and> files fs' = files fs))"
proof -
  have 1: "configureMcp g pkg projDir options agId fs = Inr (fs, [])"
    if "\<not> supportsMcp ag \<or> settingsFile ag = None \<or> settingsFile ag = Some []"
    using configureMcp_gate[of g agId ag pkg projDir options fs] assms that by blast
  have 2: "\<exists>fs'. configureMcp g pkg projDir options agId fs = Inr (fs', []) \<and> files fs' = files fs"
    if h: "\<forall>(key, fname) \<in> set MCP_SERVER_FILES.
              \<not> option_flag options key
              \<or> readTemplate pkg (path_join [path_join [getMcpDir pkg, ''templates''], fname]) = None"
  proof (cases "\<not> supportsMcp ag \<or> settingsFile ag = None \<or> settingsFile ag = Some []")
    case True
    then show ?thesis using 1 by blast
  next
    case False
    then obtain sf where sf: "settingsFile ag = Some sf" "sf \<noteq> []" "supportsMcp ag" by auto
    have e: "getSelectedServerTemplates pkg options (path_join [getMcpDir pkg, ''templates'']) = []"
      unfolding getSelectedServerTemplates_def using h by (rule selectTemplates_empty)
    show ?thesis
      using configureMcp_active[of g agId ag sf pkg projDir options fs] assms sf e
      by (simp add: files_ensureDir)
  qed
  have 3: "\<forall>(key, fname) \<in> set MCP_SERVER_FILES.
              \<not> option_flag options key
              \<or> readTemplate pkg (path_join [path_join [getMcpDir pkg, ''templates''], fname]) = None"
    if "\<not> github options \<and> \<not> filesystem options \<and> \<not> postgres options \<and> \<not> chromeDevtools options"
    using that by (simp add: MCP_SERVER_FILES_def option_flag_def)
  show ?thesis
  proof (intro conjI impI)
    assume "\<not> supportsMcp ag \<or> settingsFile ag = None \<or> settingsFile ag = Some []"
    then show "configureMcp g pkg projDir options agId fs = Inr (fs, [])" by (rule 1)
  next
    assume "\<forall>(key, fname) \<in> set MCP_SERVER_FILES.
              \<not> option_flag options key
              \<or> readTemplate pkg (path_join [path_join [getMcpDir pkg, ''templates''], fname]) = None"
    then show "\<exists>fs'. configureMcp g pkg projDir options agId fs = Inr (fs', []) \<and> files fs' = files fs"
      by (rule 2)
  next
    assume "\<not> github options \<and> \<not> filesystem options \<and> \<not> postgres options \<and> \<not> chromeDevtools options"
    then have "\<forall>(key, fname) \<in> set MCP_SERVER_FILES.
              \<not> option_flag options key
              \<or> readTemplate pkg (path_join [path_join [getMcpDir pkg, ''templates''], fname]) = None"
      by (rule 3)
    then show "\<exists>fs'. configureMcp g pkg projDir options agId fs = Inr (fs', []) \<and> files fs' = files fs"
      by (rule 2)
  qed
qed

text \<open>Runs on the sample project, for the agents \<open>claude\<close> and \<open>opencode\<close>.\<close>

lemmas mcp_eval_defs =
  configureMcp_def sampleRegistry_def claudeProfile_def opencodeProfile_def plainProfile_def
  samplePackage_def githubOnly_def noOptions_def projectWithSettings_def
  getSelectedServerTemplates_def MCP_SERVER_FILES_def option_flag_def readTemplate_def
  path_join_def path_dirname_def ensureDir_def mergeIntoSettings_def fileExists_def
  readJsonFile_def writeJsonFile_def get_prop_def set_prop_def js_of_McpServerConfig_def
  js_of_OpenCode_def js_of_record_def toOpenCodeFormat_def Let_def settingsPathOf_def
  mcpKeyOf_def loadedSettings_def

lemma run_claude_github:
  "configureMcp sampleRegistry samplePackage ''/w'' githubOnly ''claude'' projectWithSettings =
     Inr (\<lparr>files =
            [(''/w/.mcp.json'',
              Json [(''theme'', JStr ''dark''),
                    (''mcpServers'',
                     JObj [(''custom'', JObj [(''command'', JStr ''run'')]),
                           (''github'',
                            JObj [(''command'', JStr ''npx''),
                                  (''args'', JArr [JStr ''-y'', JStr ''server'']),
                                  (''env'', JObj [(''TOKEN'', JStr ''x'')])])])])],
           dirs = [''/w'']\<rparr>,
          [''github''])"
  by (simp add: mcp_eval_defs)

text \<open>
  An agent without MCP support with a flag set, \<open>claude\<close> with every flag false, and
  \<open>claude\<close> with the one flag whose template file the package does not have.
\<close>

theorem configureMcp_noop_witness:
  "sampleRegistry (JStr ''plain'') = Some plainProfile
   \<and> \<not> supportsMcp plainProfile
   \<and> configureMcp sampleRegistry samplePackage ''/w'' githubOnly ''plain'' projectWithSettings
       = Inr (projectWithSettings, [])
   \<and> sampleRegistry (JStr ''claude'') = Some claudeProfile
   \<and> (\<exists>fs'. configureMcp sampleRegistry samplePackage ''/w'' noOptions ''claude'' projectWithSettings
              = Inr (fs', [])
            \<and> files fs' = files projectWithSettings)
   \<and> option_flag postgresOnly ''postgres''
   \<and> (\<exists>fs'. configureMcp sampleRegistry samplePackage ''/w'' postgresOnly ''claude'' projectWithSettings
              = Inr (fs', [])
            \<and> files fs' = files projectWithSettings)"
proof -
  have p: "sampleRegistry (JStr ''plain'') = Some plainProfile"
    and c: "sampleRegistry (JStr ''claude'') = Some claudeProfile"
    by (simp_all add: sampleRegistry_def)
  have n: "\<not> supportsMcp plainProfile" by (simp add: plainProfile_def)
  have f: "\<not> github noOptions \<and> \<not> filesystem noOptions \<and> \<not> postgres noOptions \<and> \<not> chromeDevtools noOptions"
    by (simp add: noOptions_def)
  from configureMcp_noop[of sampleRegistry "''plain''" plainProfile samplePackage "''/w''" githubOnly
         projectWithSettings, OF p] n
  have 1: "configureMcp sampleRegistry samplePackage ''/w'' githubOnly ''plain'' projectWithSettings
       = Inr (projectWithSettings, [])" by blast
  from configureMcp_noop[of sampleRegistry "''claude''" claudeProfile samplePackage "''/w''" noOptions
         projectWithSettings, OF c] f
  have 2: "\<exists>fs'. configureMcp sampleRegistry samplePackage ''/w'' noOptions ''claude'' projectWithSettings
              = Inr (fs', [])
            \<and> files fs' = files projectWithSettings" by blast
  have m: "\<forall>(key, fname) \<in> set MCP_SERVER_FILES.
              \<not> option_flag postgresOnly key
              \<or> readTemplate samplePackage
                   (path_join [path_join [getMcpDir samplePackage, ''templates''], fname]) = None"
    by (simp add: MCP_SERVER_FILES_def option_flag_def postgresOnly_def readTemplate_def
          samplePackage_def path_join_def)
  have o: "option_flag postgresOnly ''postgres''"
    by (simp add: option_flag_def postgresOnly_def)
  from configureMcp_noop[of sampleRegistry "''claude''" claudeProfile samplePackage "''/w''" postgresOnly
         projectWithSettings, OF c] m
  have 3: "\<exists>fs'. configureMcp sampleRegistry samplePackage ''/w'' postgresOnly ''claude'' projectWithSettings
              = Inr (fs', [])
            \<and> files fs' = files projectWithSettings" by blast
  show ?thesis using p n 1 c 2 o 3 by blast
qed

text \<open>The key \<open>theme\<close> and the server \<open>custom\<close> survive the provisioning of \<open>github\<close>.\<close>

theorem configureMcp_frame_witness:
  "configureMcp sampleRegistry samplePackage ''/w'' githubOnly ''claude'' projectWithSettings =
     Inr (\<lparr>files =
            [(''/w/.mcp.json'',
              Json [(''theme'', JStr ''dark''),
                    (''mcpServers'',
                     JObj [(''custom'', JObj [(''command'', JStr ''run'')]),
                           (''github'',
                            JObj [(''command'', JStr ''npx''),
                                  (''args'', JArr [JStr ''-y'', JStr ''server'']),
                                  (''env'', JObj [(''TOKEN'', JStr ''x'')])])])])],
           dirs = [''/w'']\<rparr>,
          [''github''])
   \<and> sampleRegistry (JStr ''claude'') = Some claudeProfile
   \<and> (\<exists>doc. readJsonFile
               \<lparr>files =
                  [(''/w/.mcp.json'',
                    Json [(''theme'', JStr ''dark''),
                          (''mcpServers'',
                           JObj [(''custom'', JObj [(''command'', JStr ''run'')]),
                                 (''github'',
                                  JObj [(''command'', JStr ''npx''),
                                        (''args'', JArr [JStr ''-y'', JStr ''server'']),
                                        (''env'', JObj [(''TOKEN'', JStr ''x'')])])])])],
                dirs = [''/w'']\<rparr> ''/w/.mcp.json'' = Some doc
          \<and> map_of doc ''theme'' = Some (JStr ''dark'')
          \<and> map_of (own_entries (get_prop doc ''mcpServers'')) ''custom''
              = Some (JObj [(''command'', JStr ''run'')]))"
proof -
  have c: "sampleRegistry (JStr ''claude'') = Some claudeProfile"
    by (simp add: sampleRegistry_def)
  have p: "settingsPathOf ''/w'' claudeProfile = ''/w/.mcp.json''"
    by (simp add: settingsPathOf_def claudeProfile_def path_join_def)
  have k: "mcpKeyOf ''claude'' = ''mcpServers''" by (simp add: mcpKeyOf_def)
  have l: "loadedSettings projectWithSettings ''/w/.mcp.json'' =
             [(''theme'', JStr ''dark''),
              (''mcpServers'', JObj [(''custom'', JObj [(''command'', JStr ''run'')])])]"
    by (simp add: loadedSettings_def readJsonFile_def projectWithSettings_def)
  have n: "[''github''] \<noteq> []" by simp
  from configureMcp_frame[OF run_claude_github n c] 
  obtain doc where 1: "readJsonFile
               \<lparr>files =
                  [(''/w/.mcp.json'',
                    Json [(''theme'', JStr ''dark''),
                          (''mcpServers'',
                           JObj [(''custom'', JObj [(''command'', JStr ''run'')]),
                                 (''github'',
                                  JObj [(''command'', JStr ''npx''),
                                        (''args'', JArr [JStr ''-y'', JStr ''server'']),
                                        (''env'', JObj [(''TOKEN'', JStr ''x'')])])])])],
                dirs = [''/w'']\<rparr> ''/w/.mcp.json'' = Some doc"
    and 2: "\<forall>k. k \<noteq> ''mcpServers'' \<longrightarrow> map_of doc k = map_of [(''theme'', JStr ''dark''),
              (''mcpServers'', JObj [(''custom'', JObj [(''command'', JStr ''run'')])])] k"
    and 3: "\<forall>name. name \<notin> set [''github''] \<longrightarrow>
                  map_of (own_entries (get_prop doc ''mcpServers'')) name
                  = map_of (own_entries (get_prop [(''theme'', JStr ''dark''),
              (''mcpServers'', JObj [(''custom'', JObj [(''command'', JStr ''run'')])])] ''mcpServers'')) name"
    unfolding p k l by blast
  from 2 have 4: "map_of doc ''theme'' = Some (JStr ''dark'')" by simp
  from 3 have 5: "map_of (own_entries (get_prop doc ''mcpServers'')) ''custom''
              = Some (JObj [(''command'', JStr ''run'')])" by (simp add: get_prop_def)
  show ?thesis using run_claude_github c 1 4 5 by blast
qed


text \<open>The template of the spec's example, provisioned for \<open>opencode\<close> and for \<open>claude\<close>.\<close>

theorem configureMcp_stores_witness:
  "toOpenCodeFormat \<lparr>command = ''npx'', args = Some [''-y'', ''server''], env = Some [(''TOKEN'', ''x'')]\<rparr>
     = \<lparr>oc_type = ''local'', oc_command = [''npx'', ''-y'', ''server''],
        oc_environment = Some [(''TOKEN'', ''x'')]\<rparr>
   \<and> sampleRegistry (JStr ''opencode'') = Some opencodeProfile
   \<and> sampleRegistry (JStr ''claude'') = Some claudeProfile
   \<and> option_flag githubOnly ''github''
   \<and> readTemplate samplePackage ''/p/mcp/templates/github.json''
       = Some \<lparr>command = ''npx'', args = Some [''-y'', ''server''], env = Some [(''TOKEN'', ''x'')]\<rparr>
   \<and> (\<exists>fs' servers doc sub.
          configureMcp sampleRegistry samplePackage ''/w'' githubOnly ''opencode'' projectWithSettings
            = Inr (fs', servers)
        \<and> ''github'' \<in> set servers
        \<and> readJsonFile fs' ''/w/opencode.json'' = Some doc
        \<and> get_prop doc ''mcp'' = JObj sub
        \<and> get_prop sub ''github'' =
              JObj [(''type'', JStr ''local''),
                    (''command'', JArr [JStr ''npx'', JStr ''-y'', JStr ''server'']),
                    (''environment'', JObj [(''TOKEN'', JStr ''x'')])])
   \<and> (\<exists>fs' servers doc sub.
          configureMcp sampleRegistry samplePackage ''/w'' githubOnly ''claude'' projectWithSettings
            = Inr (fs', servers)
        \<and> ''github'' \<in> set servers
        \<and> readJsonFile fs' ''/w/.mcp.json'' = Some doc
        \<and> get_prop doc ''mcpServers'' = JObj sub
        \<and> get_prop sub ''github'' =
              JObj [(''command'', JStr ''npx''),
                    (''args'', JArr [JStr ''-y'', JStr ''server'']),
                    (''env'', JObj [(''TOKEN'', JStr ''x'')])])"
proof -
  let ?t = "\<lparr>command = ''npx'', args = Some [''-y'', ''server''], env = Some [(''TOKEN'', ''x'')]\<rparr>"
  have c: "sampleRegistry (JStr ''claude'') = Some claudeProfile"
    and o: "sampleRegistry (JStr ''opencode'') = Some opencodeProfile"
    by (simp_all add: sampleRegistry_def)
  have gc: "supportsMcp claudeProfile" "settingsFile claudeProfile = Some ''.mcp.json''"
    and go: "supportsMcp opencodeProfile" "settingsFile opencodeProfile = Some ''opencode.json''"
    by (simp_all add: claudeProfile_def opencodeProfile_def)
  have pc: "settingsPathOf ''/w'' claudeProfile = ''/w/.mcp.json''"
    and po: "settingsPathOf ''/w'' opencodeProfile = ''/w/opencode.json''"
    by (simp_all add: settingsPathOf_def claudeProfile_def opencodeProfile_def path_join_def)
  have kc: "mcpKeyOf ''claude'' = ''mcpServers''" and ko: "mcpKeyOf ''opencode'' = ''mcp''"
    by (simp_all add: mcpKeyOf_def)
  have kf: "(''github'', ''github.json'') \<in> set MCP_SERVER_FILES"
    by (simp add: MCP_SERVER_FILES_def)
  have fl: "option_flag githubOnly ''github''"
    by (simp add: option_flag_def githubOnly_def)
  have tp: "path_join [path_join [getMcpDir samplePackage, ''templates''], ''github.json'']
            = ''/p/mcp/templates/github.json''"
    by (simp add: samplePackage_def path_join_def)
  have rt: "readTemplate samplePackage ''/p/mcp/templates/github.json'' = Some ?t"
    by (simp add: readTemplate_def samplePackage_def)
  have oc: "get_prop (loadedSettings projectWithSettings ''/w/.mcp.json'') ''mcpServers''
              = JObj [(''custom'', JObj [(''command'', JStr ''run'')])]"
    and oo: "\<not> truthy (get_prop (loadedSettings projectWithSettings ''/w/opencode.json'') ''mcp'')"
    by (simp_all add: loadedSettings_def readJsonFile_def projectWithSettings_def get_prop_def)
  note s1 = configureMcp_stores[where t = ?t and g = sampleRegistry and pkg = samplePackage
              and projDir = "''/w''" and options = githubOnly and agId = "''opencode''"
              and fs = projectWithSettings and ag = opencodeProfile and sf = "''opencode.json''"
              and key = "''github''" and fname = "''github.json''", unfolded po ko tp]
  note s2 = configureMcp_stores[where t = ?t and g = sampleRegistry and pkg = samplePackage
              and projDir = "''/w''" and options = githubOnly and agId = "''claude''"
              and fs = projectWithSettings and ag = claudeProfile and sf = "''.mcp.json''"
              and key = "''github''" and fname = "''github.json''", unfolded pc kc tp]
  have 1: "toOpenCodeFormat ?t = \<lparr>oc_type = ''local'', oc_command = [''npx'', ''-y'', ''server''],
        oc_environment = Some [(''TOKEN'', ''x'')]\<rparr>"
    using s1 by simp
  have 2: "\<exists>fs' servers doc sub.
          configureMcp sampleRegistry samplePackage ''/w'' githubOnly ''opencode'' projectWithSettings
            = Inr (fs', servers)
        \<and> ''github'' \<in> set servers
        \<and> readJsonFile fs' ''/w/opencode.json'' = Some doc
        \<and> get_prop doc ''mcp'' = JObj sub
        \<and> get_prop sub ''github'' =
              JObj [(''type'', JStr ''local''),
                    (''command'', JArr [JStr ''npx'', JStr ''-y'', JStr ''server'']),
                    (''environment'', JObj [(''TOKEN'', JStr ''x'')])]"
    using s1 o go kf fl rt oo by (simp add: js_of_record_def)
  have 3: "\<exists>fs' servers doc sub.
          configureMcp sampleRegistry samplePackage ''/w'' githubOnly ''claude'' projectWithSettings
            = Inr (fs', servers)
        \<and> ''github'' \<in> set servers
        \<and> readJsonFile fs' ''/w/.mcp.json'' = Some doc
        \<and> get_prop doc ''mcpServers'' = JObj sub
        \<and> get_prop sub ''github'' =
              JObj [(''command'', JStr ''npx''),
                    (''args'', JArr [JStr ''-y'', JStr ''server'']),
                    (''env'', JObj [(''TOKEN'', JStr ''x'')])]"
    using s2 c gc kf fl rt oc by (simp add: js_of_record_def)
  show ?thesis using 1 o c fl rt 2 3 by blast
qed


section \<open>Properties of the skill installer\<close>

lemma install_fails:
  "\<not> hasSkillMd pkg dir \<Longrightarrow>
   installSkillWithTransformer C pkg dir name pd sd ag ac fs = Inl (Error (''SKILL.md not found in '' @ dir))"
  by (auto simp: installSkillWithTransformer_def hasSkillMd_def Let_def split: option.splits)

lemma install_succeeds:
  "hasSkillMd pkg dir \<Longrightarrow> \<exists>fs'. installSkillWithTransformer C pkg dir name pd sd ag ac fs = Inr fs'"
  by (auto simp: installSkillWithTransformer_def hasSkillMd_def Let_def split: option.splits)

lemma installSkillWithTransformer_fails_iff:
  "(\<exists>e. installSkillWithTransformer C pkg dir name pd sd ag ac fs = Inl e) \<longleftrightarrow> \<not> hasSkillMd pkg dir"
  using install_fails[of pkg dir C name pd sd ag ac fs] install_succeeds[of pkg dir C name pd sd ag ac fs]
  by auto

lemma warnings_warn: "warnings (warn m w) = warnings w @ [m]"
  by (simp add: warn_def)




text \<open>One iteration of the loop, by the three ways a key can be left out.\<close>

lemma reconcileLoop_malformed:
  "\<not> wellFormedKey k \<Longrightarrow>
   reconcileLoop C pkg ac pd cfg (k # rest) (w, acc) =
   reconcileLoop C pkg ac pd cfg rest (warn (reconcileWarning pkg k) w, acc)"
  by (auto simp: wellFormedKey_def reconcileWarning_def Let_def split: list.splits)

lemma reconcileLoop_stale:
  "wellFormedKey k \<Longrightarrow> \<not> sourceExists pkg k \<Longrightarrow>
   reconcileLoop C pkg ac pd cfg (k # rest) (w, acc) =
   reconcileLoop C pkg ac pd cfg rest (warn (reconcileWarning pkg k) w, acc)"
  by (auto simp: wellFormedKey_def sourceExists_def customTemplateDir_def reconcileWarning_def Let_def
           split: list.splits)

lemma reconcileLoop_failed:
  "wellFormedKey k \<Longrightarrow> sourceExists pkg k \<Longrightarrow> \<not> hasSkillMd pkg (customTemplateDir pkg k) \<Longrightarrow>
   reconcileLoop C pkg ac pd cfg (k # rest) (w, acc) =
   reconcileLoop C pkg ac pd cfg rest (warn (reconcileWarning pkg k) w, acc)"
  by (auto simp: wellFormedKey_def sourceExists_def customTemplateDir_def reconcileWarning_def Let_def
                 install_fails
           split: list.splits)

lemma reconcileLoop_installed:
  "reconcilable pkg k \<Longrightarrow>
   \<exists>fs'. reconcileLoop C pkg ac pd cfg (k # rest) (w, acc) =
   reconcileLoop C pkg ac pd cfg rest (w\<lparr>project := fs'\<rparr>, acc @ [k])"
proof -
  assume r: "reconcilable pkg k"
  then obtain st ts ps where p: "split_on (CHR ''/'') k = st # ts # ps" "st \<noteq> []" "ts \<noteq> []"
    by (auto simp: reconcilable_def wellFormedKey_def split: list.splits)
  have d: "customTemplateDir pkg k = path_join [getSkillsDir pkg, ''_templates'', st, ts]"
    using p by (simp add: customTemplateDir_def)
  have e: "fileExists (tree pkg) (path_join [path_join [getSkillsDir pkg, ''_templates'', st, ts], ''SKILL.md''])"
    using r d by (simp add: reconcilable_def sourceExists_def)
  obtain fs' where f: "installSkillWithTransformer C pkg (path_join [getSkillsDir pkg, ''_templates'', st, ts]) ts pd
                             (AiFactoryConfig.skillsDir cfg) (agent cfg) ac (project w) = Inr fs'"
    using install_succeeds[of pkg "customTemplateDir pkg k" C ts pd "AiFactoryConfig.skillsDir cfg" "agent cfg" ac "project w"] r d
    by (auto simp: reconcilable_def)
  show ?thesis
    using p e f by (auto simp: Let_def)
qed

lemma reconcileLoop_result:
  "\<exists>w'. reconcileLoop C pkg ac pd cfg ks (w, acc) = (w', acc @ filter (reconcilable pkg) ks)
        \<and> warnings w' = warnings w
             @ map (reconcileWarning pkg) (filter (\<lambda>k. \<not> reconcilable pkg k) ks)"
proof (induction ks arbitrary: w acc)
  case Nil
  then show ?case by simp
next
  case (Cons k ks)
  show ?case
  proof (cases "reconcilable pkg k")
    case True
    then obtain fs' where s: "reconcileLoop C pkg ac pd cfg (k # ks) (w, acc) =
         reconcileLoop C pkg ac pd cfg ks (w\<lparr>project := fs'\<rparr>, acc @ [k])"
      using reconcileLoop_installed by blast
    show ?thesis
      unfolding s using Cons.IH[of "w\<lparr>project := fs'\<rparr>" "acc @ [k]"] True by simp
  next
    case False
    have s: "reconcileLoop C pkg ac pd cfg (k # ks) (w, acc) =
         reconcileLoop C pkg ac pd cfg ks (warn (reconcileWarning pkg k) w, acc)"
    proof (cases "wellFormedKey k")
      case wf: True
      show ?thesis
      proof (cases "sourceExists pkg k")
        case True
        then have "\<not> hasSkillMd pkg (customTemplateDir pkg k)"
          using False wf by (simp add: reconcilable_def)
        with wf True show ?thesis by (rule reconcileLoop_failed)
      next
        case False
        with wf show ?thesis by (rule reconcileLoop_stale)
      qed
    next
      case False
      then show ?thesis by (rule reconcileLoop_malformed)
    qed
    show ?thesis
      unfolding s using Cons.IH[of "warn (reconcileWarning pkg k) w" acc] False
      by (simp add: warnings_warn)
  qed
qed

lemma split_on_absent: "c \<notin> set s \<Longrightarrow> split_on c s = [s]"
  by (induction s) auto

lemma no_slash_malformed: "CHR ''/'' \<notin> set k \<Longrightarrow> \<not> wellFormedKey k"
  by (simp add: wellFormedKey_def split_on_absent)

text \<open>
  Claim C6. For a registered agent, \<open>reconcileCustomSkills\<close> returns, in input order,
  exactly the keys that split into a non-empty stack and a non-empty skill, whose source
  \<open>SKILL.md\<close> exists and whose reinstall succeeds. Every other key adds exactly one
  warning and the loop goes on with the next key; a key without a slash and a key whose
  source is gone are among these.
\<close>

theorem reconcileCustomSkills_result:
  assumes "g (JStr (agent cfg)) = Some ac"
  shows "\<exists>w'. reconcileCustomSkills g C pkg ks pd cfg w = Inr (w', filter (reconcilable pkg) ks)
          \<and> warnings w' = warnings w
               @ map (reconcileWarning pkg) (filter (\<lambda>k. \<not> reconcilable pkg k) ks)
          \<and> (\<forall>k \<in> set ks. CHR ''/'' \<notin> set k \<or> \<not> sourceExists pkg k \<longrightarrow> \<not> reconcilable pkg k)"
proof -
  have "\<forall>k \<in> set ks. CHR ''/'' \<notin> set k \<or> \<not> sourceExists pkg k \<longrightarrow> \<not> reconcilable pkg k"
    using no_slash_malformed by (auto simp: reconcilable_def)
  then show ?thesis
    using assms reconcileLoop_result[of C pkg ac pd cfg ks w "[]"]
    by (auto simp: reconcileCustomSkills_def)
qed

text \<open>Runs on the sample package.\<close>

lemmas installer_eval_defs =
  hasSkillMd_def readTextFile_def samplePackage_def path_join_def sampleRegistry_def
  claudeProfile_def threeSkills_def reactStack_def sampleConfig_def stackKeys_def
  emptyWorld_def wellFormedKey_def sourceExists_def customTemplateDir_def reconcilable_def
  fileExists_def


text \<open>A good key, a key without a slash, a key whose source is gone, and one with an empty \<open>SKILL.md\<close>.\<close>

theorem reconcileCustomSkills_result_witness:
  "sampleRegistry (JStr (agent sampleConfig)) = Some claudeProfile
   \<and> (\<exists>w'. reconcileCustomSkills sampleRegistry sampleCollaborators samplePackage
               [''react/b'', ''bad'', ''react/gone'', ''react/c''] ''/w'' sampleConfig emptyWorld
              = Inr (w', [''react/b''])
           \<and> warnings w' = [reconcileWarning samplePackage ''bad'',
                             reconcileWarning samplePackage ''react/gone'',
                             reconcileWarning samplePackage ''react/c''])
   \<and> \<not> wellFormedKey ''bad''
   \<and> \<not> sourceExists samplePackage ''react/gone''"
proof -
  have h: "sampleRegistry (JStr (agent sampleConfig)) = Some claudeProfile"
    by (simp add: sampleRegistry_def sampleConfig_def)
  have a: "reconcilable samplePackage ''react/b''"
    and b: "\<not> reconcilable samplePackage ''bad''"
    and c: "\<not> reconcilable samplePackage ''react/gone''"
    and d: "\<not> reconcilable samplePackage ''react/c''"
    and m: "\<not> wellFormedKey ''bad''"
    and n: "\<not> sourceExists samplePackage ''react/gone''"
    by (simp_all add: installer_eval_defs)
  have e: "warnings emptyWorld = []" by (simp add: emptyWorld_def)
  from reconcileCustomSkills_result[of sampleRegistry sampleConfig claudeProfile sampleCollaborators
         samplePackage "[''react/b'', ''bad'', ''react/gone'', ''react/c'']" "''/w''" emptyWorld, OF h]
  show ?thesis using h a b c d m n by (auto simp add: e)
qed

text \<open>
  Claim C2, where the code departs from it. The stack \<open>react\<close> has the template skills
  \<open>a\<close>, \<open>b\<close> and \<open>c\<close>; \<open>a\<close> has no \<open>SKILL.md\<close> and \<open>b\<close> has one. The failure of \<open>a\<close>
  leaves the loop through the \<open>catch\<close> around it: \<open>installSkills\<close> returns the empty list,
  writes no warning and never installs \<open>b\<close>, where the claim has a warning for \<open>a\<close> and
  the key \<open>react/b\<close> in the list.
\<close>

theorem installSkills_stack_failure_silent:
  "installSkills sampleRegistry sampleCollaborators samplePackage reactStack emptyWorld
     = Inr (\<lparr>project = \<lparr>files = [], dirs = [''/w/.claude/skills'']\<rparr>, warnings = []\<rparr>, [])
   \<and> listDirectories (tree samplePackage) ''/p/skills/_templates/react'' = Some [''a'', ''b'', ''c'']
   \<and> \<not> hasSkillMd samplePackage ''/p/skills/_templates/react/a''
   \<and> hasSkillMd samplePackage ''/p/skills/_templates/react/b''"
  by (simp add: installSkills_def installSkillWithTransformer_def listDirectories_def
        path_dirname_def ensureDir_def sampleCollaborators_def directoryTransformer_def
        installer_eval_defs Let_def)

end
